theory Spec2Isabelle
  imports Main
begin

section \<open>Values, rows and tables\<close>

text \<open>
  The repository is a table schema (Concepts, ConceptSteps, ConceptChecks, ConceptJobs)
  and twelve handlers over it. A handler is modelled as a function of its validated
  input, the request context, the time read by \<^verbatim>\<open>new Date()\<close> and the tables; it
  returns its result (an error on the left) and the tables after the call. Handlers that
  only read return their result alone.

  Numbers are \<^typ>\<open>int\<close> (the inputs are \<^verbatim>\<open>z.number().int()\<close>), dates are
  milliseconds, text is \<^typ>\<open>string\<close>. An enumerated text column is a datatype. A JSON
  column read from a row is a \<open>json\<close> value, \<open>JNull\<close> when the column is NULL. A nullable
  text or number column read from a row is an option, \<open>None\<close> when the column is NULL.
  In an input object and in an object passed to the store, an option stands for an
  optional key: \<open>None\<close> is \<^verbatim>\<open>undefined\<close>.
\<close>

type_synonym date = int

datatype json =
  JNull | JBool bool | JNum int | JStr string | JArr "json list" | JObj "(string \<times> json) list"

datatype difficulty = Beginner | Intermediate | Advanced

datatype conceptStatus = Draft | Published | Archived

datatype stepType =
  Step_intro | Step_intuition | Step_definition | Step_example | Step_analogy
  | Step_summary | Step_other

datatype checkType = Single_choice | Multiple_choice | True_false | Short_text

datatype jobType = Explain_like_5 | Step_breakdown | Job_analogy | Job_summary | Job_other

datatype jobStatus = Pending | Completed | Failed

record ConceptRow =
  c_id :: int
  c_ownerId :: string
  c_title :: string
  c_description :: "string option"
  c_subject :: "string option"
  c_topic :: "string option"
  c_tags :: "string option"
  c_difficulty :: difficulty
  c_status :: conceptStatus
  c_createdAt :: date
  c_updatedAt :: date

record StepRow =
  s_id :: int
  s_conceptId :: int
  s_stepNumber :: int
  s_stepType :: stepType
  s_heading :: "string option"
  s_content :: string
  s_example :: "string option"
  s_analogy :: "string option"
  s_createdAt :: date

record CheckRow =
  k_id :: int
  k_conceptId :: int
  k_question :: string
  k_options :: json
  k_correctAnswer :: json
  k_explanation :: "string option"
  k_type :: checkType
  k_createdAt :: date

record JobRow =
  j_id :: int
  j_conceptId :: "int option"
  j_ownerId :: string
  j_jobType :: jobType
  j_input :: json
  j_output :: json
  j_status :: jobStatus
  j_createdAt :: date

record db =
  Concepts :: "ConceptRow list"
  ConceptSteps :: "StepRow list"
  ConceptChecks :: "CheckRow list"
  ConceptJobs :: "JobRow list"

definition empty_db :: db where
  "empty_db = \<lparr>Concepts = [], ConceptSteps = [], ConceptChecks = [], ConceptJobs = []\<rparr>"

text \<open>The declared defaults of the ConceptJobs table (\<^verbatim>\<open>jobType\<close> and \<^verbatim>\<open>status\<close> columns).\<close>

definition ConceptJobs_jobType_default :: jobType where
  "ConceptJobs_jobType_default = Step_breakdown"

definition ConceptJobs_status_default :: jobStatus where
  "ConceptJobs_status_default = Completed"

section \<open>Errors\<close>

text \<open>
  A handler fails by throwing an \<^verbatim>\<open>ActionError\<close> with a code and a message. An error
  the store raises is caught by no handler and reaches the caller as it is; it is
  modelled with the result code of the engine.
\<close>

datatype code = UNAUTHORIZED | NOT_FOUND

datatype error = ActionError code string | StoreError string

section \<open>The store\<close>

text \<open>
  The handlers reach the tables through the query builder of \<^verbatim>\<open>astro:db\<close>, which is
  not part of the repository. What the handlers rely on is modelled here:
  \<^item> \<^verbatim>\<open>select().from(T).where(p)\<close> returns the rows satisfying \<open>p\<close> in table order,
    \<^verbatim>\<open>limit(n)\<close> keeps the first \<open>n\<close>, and \<^verbatim>\<open>const [x] = rows\<close> binds the first row
    or \<^verbatim>\<open>undefined\<close>;
  \<^item> \<^verbatim>\<open>update(T).set(v).where(p).returning()\<close> rewrites every row satisfying \<open>p\<close> and
    returns the rewritten rows. The client is a Drizzle client, and Drizzle's \<^verbatim>\<open>set\<close>
    ignores a key whose value is \<^verbatim>\<open>undefined\<close>: the column keeps its value. A column is
    set to NULL only by passing \<^verbatim>\<open>null\<close>, which no validated text input of the handlers
    can carry (\<^verbatim>\<open>z.string().optional()\<close> admits a string or \<^verbatim>\<open>undefined\<close>);
  \<^item> \<^verbatim>\<open>delete(T).where(p).returning()\<close> removes every row satisfying \<open>p\<close> and returns
    the removed rows;
  \<^item> \<^verbatim>\<open>insert(T).values(v).returning()\<close> appends one row and returns it. The row's id is
    allocated by the store: one more than the largest id of the table, so it is
    positive and not in use. A key that is \<^verbatim>\<open>undefined\<close> takes the column's default
    (NULL for an optional column).
  The schema declares \<^verbatim>\<open>conceptId\<close> of ConceptSteps, ConceptChecks and ConceptJobs as a
  reference to \<^verbatim>\<open>Concepts.id\<close>, and the store enforces it: an insert whose
  \<^verbatim>\<open>conceptId\<close> is not NULL and is the id of no Concept raises the error
  SQLITE_CONSTRAINT_FOREIGNKEY and writes nothing. \<^verbatim>\<open>saveStep\<close> and \<^verbatim>\<open>saveCheck\<close> write a
  \<^verbatim>\<open>conceptId\<close> only after they have found that Concept, and no handler removes a
  Concept, so the reference can fail only where a Job is inserted; it is modelled there.
\<close>

definition select_where :: "('r \<Rightarrow> bool) \<Rightarrow> 'r list \<Rightarrow> 'r list" where
  "select_where p rows = filter p rows"

definition limit :: "nat \<Rightarrow> 'r list \<Rightarrow> 'r list" where
  "limit n rows = take n rows"

definition first_row :: "'r list \<Rightarrow> 'r option" where
  "first_row rows = (case rows of [] \<Rightarrow> None | r # _ \<Rightarrow> Some r)"

definition update_where :: "('r \<Rightarrow> bool) \<Rightarrow> ('r \<Rightarrow> 'r) \<Rightarrow> 'r list \<Rightarrow> 'r list \<times> 'r list" where
  "update_where p f rows = (map (\<lambda>r. if p r then f r else r) rows, map f (filter p rows))"

definition delete_where :: "('r \<Rightarrow> bool) \<Rightarrow> 'r list \<Rightarrow> 'r list \<times> 'r list" where
  "delete_where p rows = (filter (\<lambda>r. \<not> p r) rows, filter p rows)"

definition next_id :: "int list \<Rightarrow> int" where
  "next_id ids = fold max ids 0 + 1"

text \<open>One key of an object passed to \<^verbatim>\<open>set\<close>: \<open>None\<close> (undefined) keeps the column.\<close>

definition set_col :: "'a option \<Rightarrow> 'a \<Rightarrow> 'a" where
  "set_col v old = (case v of None \<Rightarrow> old | Some x \<Rightarrow> x)"

definition set_nullable :: "'a option \<Rightarrow> 'a option \<Rightarrow> 'a option" where
  "set_nullable v old = (case v of None \<Rightarrow> old | Some x \<Rightarrow> Some x)"

text \<open>One optional JSON key of an object passed to \<^verbatim>\<open>values\<close>: undefined gives NULL.\<close>

definition json_or_null :: "json option \<Rightarrow> json" where
  "json_or_null v = (case v of None \<Rightarrow> JNull | Some x \<Rightarrow> x)"

subsection \<open>Concepts\<close>

text \<open>The object \<^verbatim>\<open>createConcept\<close> passes to \<^verbatim>\<open>values\<close>.\<close>

record ConceptValues =
  cv_ownerId :: string
  cv_title :: string
  cv_description :: "string option"
  cv_subject :: "string option"
  cv_topic :: "string option"
  cv_tags :: "string option"
  cv_difficulty :: difficulty
  cv_status :: conceptStatus
  cv_createdAt :: date
  cv_updatedAt :: date

definition insert_concept :: "ConceptValues \<Rightarrow> ConceptRow list \<Rightarrow> ConceptRow list \<times> ConceptRow list" where
  "insert_concept v rows =
     (let row = \<lparr>c_id = next_id (map c_id rows), c_ownerId = cv_ownerId v, c_title = cv_title v,
                 c_description = cv_description v, c_subject = cv_subject v,
                 c_topic = cv_topic v, c_tags = cv_tags v, c_difficulty = cv_difficulty v,
                 c_status = cv_status v, c_createdAt = cv_createdAt v,
                 c_updatedAt = cv_updatedAt v\<rparr>
      in (rows @ [row], [row]))"

text \<open>
  The objects \<^verbatim>\<open>updateConcept\<close> and \<^verbatim>\<open>archiveConcept\<close> pass to \<^verbatim>\<open>set\<close>: any of the
  mutable columns and \<^verbatim>\<open>updatedAt\<close>.
\<close>

record ConceptSet =
  cs_title :: "string option"
  cs_description :: "string option"
  cs_subject :: "string option"
  cs_topic :: "string option"
  cs_tags :: "string option"
  cs_difficulty :: "difficulty option"
  cs_status :: "conceptStatus option"
  cs_updatedAt :: "date option"

definition set_concept :: "ConceptSet \<Rightarrow> ConceptRow \<Rightarrow> ConceptRow" where
  "set_concept v row =
     row\<lparr>c_title := set_col (cs_title v) (c_title row),
         c_description := set_nullable (cs_description v) (c_description row),
         c_subject := set_nullable (cs_subject v) (c_subject row),
         c_topic := set_nullable (cs_topic v) (c_topic row),
         c_tags := set_nullable (cs_tags v) (c_tags row),
         c_difficulty := set_col (cs_difficulty v) (c_difficulty row),
         c_status := set_col (cs_status v) (c_status row),
         c_updatedAt := set_col (cs_updatedAt v) (c_updatedAt row)\<rparr>"

subsection \<open>Steps\<close>

text \<open>The object \<^verbatim>\<open>baseValues\<close> of \<^verbatim>\<open>saveStep\<close>, passed to \<^verbatim>\<open>values\<close> and to \<^verbatim>\<open>set\<close>.\<close>

record StepValues =
  sv_conceptId :: int
  sv_stepNumber :: int
  sv_stepType :: stepType
  sv_heading :: "string option"
  sv_content :: string
  sv_example :: "string option"
  sv_analogy :: "string option"

definition insert_step :: "StepValues \<Rightarrow> date \<Rightarrow> StepRow list \<Rightarrow> StepRow list \<times> StepRow list" where
  "insert_step v now rows =
     (let row = \<lparr>s_id = next_id (map s_id rows), s_conceptId = sv_conceptId v,
                 s_stepNumber = sv_stepNumber v, s_stepType = sv_stepType v,
                 s_heading = sv_heading v, s_content = sv_content v,
                 s_example = sv_example v, s_analogy = sv_analogy v, s_createdAt = now\<rparr>
      in (rows @ [row], [row]))"

definition set_step :: "StepValues \<Rightarrow> StepRow \<Rightarrow> StepRow" where
  "set_step v row =
     row\<lparr>s_conceptId := sv_conceptId v, s_stepNumber := sv_stepNumber v,
         s_stepType := sv_stepType v,
         s_heading := set_nullable (sv_heading v) (s_heading row),
         s_content := sv_content v,
         s_example := set_nullable (sv_example v) (s_example row),
         s_analogy := set_nullable (sv_analogy v) (s_analogy row)\<rparr>"

subsection \<open>Checks\<close>

text \<open>The object \<^verbatim>\<open>baseValues\<close> of \<^verbatim>\<open>saveCheck\<close>.\<close>

record CheckValues =
  kv_conceptId :: int
  kv_question :: string
  kv_options :: "json option"
  kv_correctAnswer :: "json option"
  kv_explanation :: "string option"
  kv_type :: checkType

definition insert_check :: "CheckValues \<Rightarrow> date \<Rightarrow> CheckRow list \<Rightarrow> CheckRow list \<times> CheckRow list" where
  "insert_check v now rows =
     (let row = \<lparr>k_id = next_id (map k_id rows), k_conceptId = kv_conceptId v,
                 k_question = kv_question v, k_options = json_or_null (kv_options v),
                 k_correctAnswer = json_or_null (kv_correctAnswer v),
                 k_explanation = kv_explanation v, k_type = kv_type v, k_createdAt = now\<rparr>
      in (rows @ [row], [row]))"

definition set_check :: "CheckValues \<Rightarrow> CheckRow \<Rightarrow> CheckRow" where
  "set_check v row =
     row\<lparr>k_conceptId := kv_conceptId v, k_question := kv_question v,
         k_options := set_col (kv_options v) (k_options row),
         k_correctAnswer := set_col (kv_correctAnswer v) (k_correctAnswer row),
         k_explanation := set_nullable (kv_explanation v) (k_explanation row),
         k_type := kv_type v\<rparr>"

subsection \<open>Jobs\<close>

text \<open>
  The object \<^verbatim>\<open>createJob\<close> passes to \<^verbatim>\<open>values\<close>. The keys \<^verbatim>\<open>jobType\<close> and \<^verbatim>\<open>status\<close>
  are optional for the table, which declares defaults for them.
\<close>

record JobValues =
  jv_conceptId :: "int option"
  jv_ownerId :: string
  jv_jobType :: "jobType option"
  jv_input :: "json option"
  jv_output :: "json option"
  jv_status :: "jobStatus option"
  jv_createdAt :: date

text \<open>
  The reference \<^verbatim>\<open>conceptId: column.number({ references: () => Concepts.columns.id,
  optional: true })\<close>: NULL refers to nothing, a number must be the id of a Concept.
\<close>

definition references_concept :: "ConceptRow list \<Rightarrow> int option \<Rightarrow> bool" where
  "references_concept concepts i =
     (case i of None \<Rightarrow> True | Some k \<Rightarrow> list_ex (\<lambda>r. c_id r = k) concepts)"

definition foreign_key_failed :: error where
  "foreign_key_failed = StoreError ''SQLITE_CONSTRAINT_FOREIGNKEY''"

definition insert_job ::
  "JobValues \<Rightarrow> ConceptRow list \<Rightarrow> JobRow list \<Rightarrow> error + JobRow list \<times> JobRow list" where
  "insert_job v concepts rows =
     (if references_concept concepts (jv_conceptId v) then
        (let row = \<lparr>j_id = next_id (map j_id rows), j_conceptId = jv_conceptId v,
                    j_ownerId = jv_ownerId v,
                    j_jobType = (case jv_jobType v of None \<Rightarrow> ConceptJobs_jobType_default | Some t \<Rightarrow> t),
                    j_input = json_or_null (jv_input v), j_output = json_or_null (jv_output v),
                    j_status = (case jv_status v of None \<Rightarrow> ConceptJobs_status_default | Some t \<Rightarrow> t),
                    j_createdAt = jv_createdAt v\<rparr>
         in Inr (rows @ [row], [row]))
      else Inl foreign_key_failed)"

text \<open>The object \<^verbatim>\<open>updateData\<close> of \<^verbatim>\<open>updateJob\<close>.\<close>

record JobSet =
  js_output :: "json option"
  js_status :: "jobStatus option"

definition set_job :: "JobSet \<Rightarrow> JobRow \<Rightarrow> JobRow" where
  "set_job v row =
     row\<lparr>j_output := set_col (js_output v) (j_output row),
         j_status := set_col (js_status v) (j_status row)\<rparr>"

section \<open>JavaScript operators the handlers use\<close>

text \<open>
  \<^verbatim>\<open>a ?? b\<close> takes \<open>b\<close> only when \<open>a\<close> is undefined. A condition \<^verbatim>\<open>if (x)\<close> or
  \<^verbatim>\<open>x ? a : b\<close> tests truthiness: an undefined or NULL value, the number 0 and the
  empty string are all falsy. The literals of the enumerations are non-empty strings,
  so an enumeration value is truthy exactly when it is defined.
\<close>

definition nullish :: "'a option \<Rightarrow> 'a \<Rightarrow> 'a" where
  "nullish v d = (case v of None \<Rightarrow> d | Some x \<Rightarrow> x)"

definition truthy_num :: "int option \<Rightarrow> bool" where
  "truthy_num v = (case v of None \<Rightarrow> False | Some n \<Rightarrow> n \<noteq> 0)"

definition truthy_str :: "string option \<Rightarrow> bool" where
  "truthy_str v = (case v of None \<Rightarrow> False | Some t \<Rightarrow> t \<noteq> [])"

definition truthy_enum :: "'a option \<Rightarrow> bool" where
  "truthy_enum v = (case v of None \<Rightarrow> False | Some _ \<Rightarrow> True)"

section \<open>The authorization guard and the errors of the handlers\<close>

record user =
  u_id :: string

text \<open>The request context as far as the handlers read it: \<^verbatim>\<open>context.locals?.user\<close>.\<close>

type_synonym ctx = "user option"

definition requireUser :: "ctx \<Rightarrow> error + user" where
  "requireUser c =
     (case c of
        None \<Rightarrow> Inl (ActionError UNAUTHORIZED ''You must be signed in to perform this action.'')
      | Some u \<Rightarrow> Inr u)"

definition concept_not_found :: error where
  "concept_not_found = ActionError NOT_FOUND ''Concept not found.''"

definition step_not_found :: error where
  "step_not_found = ActionError NOT_FOUND ''Step not found.''"

definition check_not_found :: error where
  "check_not_found = ActionError NOT_FOUND ''Check not found.''"

definition job_not_found :: error where
  "job_not_found = ActionError NOT_FOUND ''Job not found.''"

text \<open>
  The lookup every scoped handler starts with:
  \<^verbatim>\<open>select().from(Concepts).where(and(eq(id, i), eq(ownerId, user.id))).limit(1)\<close>.
\<close>

definition owned_concept :: "db \<Rightarrow> user \<Rightarrow> int \<Rightarrow> ConceptRow option" where
  "owned_concept s u i =
     first_row (limit 1 (select_where (\<lambda>c. c_id c = i \<and> c_ownerId c = u_id u) (Concepts s)))"

section \<open>Concept handlers\<close>

record createConcept_input =
  cc_title :: string
  cc_description :: "string option"
  cc_subject :: "string option"
  cc_topic :: "string option"
  cc_tags :: "string option"
  cc_difficulty :: "difficulty option"
  cc_status :: "conceptStatus option"

text \<open>\<^verbatim>\<open>createConcept\<close> reads the clock twice, for \<^verbatim>\<open>createdAt\<close> and for \<^verbatim>\<open>updatedAt\<close>.\<close>

definition createConcept ::
  "createConcept_input \<Rightarrow> ctx \<Rightarrow> date \<Rightarrow> date \<Rightarrow> db \<Rightarrow> (error + ConceptRow option) \<times> db" where
  "createConcept inp c now1 now2 s =
     (case requireUser c of
        Inl e \<Rightarrow> (Inl e, s)
      | Inr u \<Rightarrow>
          (case insert_concept
                  \<lparr>cv_ownerId = u_id u, cv_title = cc_title inp,
                   cv_description = cc_description inp, cv_subject = cc_subject inp,
                   cv_topic = cc_topic inp, cv_tags = cc_tags inp,
                   cv_difficulty = nullish (cc_difficulty inp) Beginner,
                   cv_status = nullish (cc_status inp) Draft,
                   cv_createdAt = now1, cv_updatedAt = now2\<rparr>
                  (Concepts s) of
             (rows, returned) \<Rightarrow> (Inr (first_row returned), s\<lparr>Concepts := rows\<rparr>)))"

record updateConcept_input =
  uc_id :: int
  uc_title :: "string option"
  uc_description :: "string option"
  uc_subject :: "string option"
  uc_topic :: "string option"
  uc_tags :: "string option"
  uc_difficulty :: "difficulty option"
  uc_status :: "conceptStatus option"

text \<open>
  The loop over \<^verbatim>\<open>Object.entries(rest)\<close> copies every entry whose value is defined
  into \<^verbatim>\<open>updateData\<close>; \<^verbatim>\<open>rest\<close> is the input without \<^verbatim>\<open>id\<close>.
\<close>

definition updateData :: "updateConcept_input \<Rightarrow> ConceptSet" where
  "updateData inp =
     \<lparr>cs_title = uc_title inp, cs_description = uc_description inp,
      cs_subject = uc_subject inp, cs_topic = uc_topic inp, cs_tags = uc_tags inp,
      cs_difficulty = uc_difficulty inp, cs_status = uc_status inp, cs_updatedAt = None\<rparr>"

text \<open>\<^verbatim>\<open>Object.keys\<close> of an object passed to \<^verbatim>\<open>set\<close>: the keys that are present.\<close>

definition key_of :: "string \<Rightarrow> 'a option \<Rightarrow> string list" where
  "key_of k v = (case v of None \<Rightarrow> [] | Some _ \<Rightarrow> [k])"

definition concept_keys :: "ConceptSet \<Rightarrow> string list" where
  "concept_keys d =
     key_of ''title'' (cs_title d) @ key_of ''description'' (cs_description d)
     @ key_of ''subject'' (cs_subject d) @ key_of ''topic'' (cs_topic d)
     @ key_of ''tags'' (cs_tags d) @ key_of ''difficulty'' (cs_difficulty d)
     @ key_of ''status'' (cs_status d) @ key_of ''updatedAt'' (cs_updatedAt d)"

definition updateConcept ::
  "updateConcept_input \<Rightarrow> ctx \<Rightarrow> date \<Rightarrow> db \<Rightarrow> (error + ConceptRow option) \<times> db" where
  "updateConcept inp c now s =
     (case requireUser c of
        Inl e \<Rightarrow> (Inl e, s)
      | Inr u \<Rightarrow>
          (case owned_concept s u (uc_id inp) of
             None \<Rightarrow> (Inl concept_not_found, s)
           | Some existing \<Rightarrow>
               if length (concept_keys (updateData inp)) = 0 then (Inr (Some existing), s)
               else
                 (case update_where (\<lambda>r. c_id r = uc_id inp \<and> c_ownerId r = u_id u)
                         (set_concept ((updateData inp)\<lparr>cs_updatedAt := Some now\<rparr>))
                         (Concepts s) of
                    (rows, returned) \<Rightarrow> (Inr (first_row returned), s\<lparr>Concepts := rows\<rparr>))))"

definition archive_set :: "date \<Rightarrow> ConceptSet" where
  "archive_set now =
     \<lparr>cs_title = None, cs_description = None, cs_subject = None, cs_topic = None,
      cs_tags = None, cs_difficulty = None, cs_status = Some Archived,
      cs_updatedAt = Some now\<rparr>"

definition archiveConcept :: "int \<Rightarrow> ctx \<Rightarrow> date \<Rightarrow> db \<Rightarrow> (error + ConceptRow) \<times> db" where
  "archiveConcept i c now s =
     (case requireUser c of
        Inl e \<Rightarrow> (Inl e, s)
      | Inr u \<Rightarrow>
          (case update_where (\<lambda>r. c_id r = i \<and> c_ownerId r = u_id u)
                  (set_concept (archive_set now)) (Concepts s) of
             (rows, returned) \<Rightarrow>
               (case first_row returned of
                  None \<Rightarrow> (Inl concept_not_found, s\<lparr>Concepts := rows\<rparr>)
                | Some concept \<Rightarrow> (Inr concept, s\<lparr>Concepts := rows\<rparr>))))"

record listMyConcepts_input =
  lc_status :: "conceptStatus option"
  lc_subject :: "string option"
  lc_topic :: "string option"

text \<open>\<^verbatim>\<open>input?.key\<close>: undefined when the whole input is.\<close>

definition opt_key :: "'i option \<Rightarrow> ('i \<Rightarrow> 'a option) \<Rightarrow> 'a option" where
  "opt_key inp key = (case inp of None \<Rightarrow> None | Some i \<Rightarrow> key i)"

definition listMyConcepts :: "listMyConcepts_input option \<Rightarrow> ctx \<Rightarrow> db \<Rightarrow> error + ConceptRow list" where
  "listMyConcepts inp c s =
     (case requireUser c of
        Inl e \<Rightarrow> Inl e
      | Inr u \<Rightarrow>
          (let concepts = select_where (\<lambda>r. c_ownerId r = u_id u) (Concepts s);
               filtered =
                 filter
                   (\<lambda>concept.
                      (let matchesStatus =
                             (if truthy_enum (opt_key inp lc_status)
                              then Some (c_status concept) = opt_key inp lc_status else True);
                           matchesSubject =
                             (if truthy_str (opt_key inp lc_subject)
                              then c_subject concept = opt_key inp lc_subject else True);
                           matchesTopic =
                             (if truthy_str (opt_key inp lc_topic)
                              then c_topic concept = opt_key inp lc_topic else True)
                       in matchesStatus \<and> matchesSubject \<and> matchesTopic))
                   concepts
           in Inr filtered))"

definition getConceptWithDetails ::
  "int \<Rightarrow> ctx \<Rightarrow> db \<Rightarrow> error + ConceptRow \<times> StepRow list \<times> CheckRow list" where
  "getConceptWithDetails i c s =
     (case requireUser c of
        Inl e \<Rightarrow> Inl e
      | Inr u \<Rightarrow>
          (case owned_concept s u i of
             None \<Rightarrow> Inl concept_not_found
           | Some concept \<Rightarrow>
               Inr (concept,
                    select_where (\<lambda>r. s_conceptId r = i) (ConceptSteps s),
                    select_where (\<lambda>r. k_conceptId r = i) (ConceptChecks s))))"

section \<open>Step handlers\<close>

record saveStep_input =
  ss_id :: "int option"
  ss_conceptId :: int
  ss_stepNumber :: "int option"
  ss_stepType :: "stepType option"
  ss_heading :: "string option"
  ss_content :: string
  ss_example :: "string option"
  ss_analogy :: "string option"

definition step_baseValues :: "saveStep_input \<Rightarrow> StepValues" where
  "step_baseValues inp =
     \<lparr>sv_conceptId = ss_conceptId inp, sv_stepNumber = nullish (ss_stepNumber inp) 1,
      sv_stepType = nullish (ss_stepType inp) Step_other, sv_heading = ss_heading inp,
      sv_content = ss_content inp, sv_example = ss_example inp,
      sv_analogy = ss_analogy inp\<rparr>"

definition saveStep :: "saveStep_input \<Rightarrow> ctx \<Rightarrow> date \<Rightarrow> db \<Rightarrow> (error + StepRow option) \<times> db" where
  "saveStep inp c now s =
     (case requireUser c of
        Inl e \<Rightarrow> (Inl e, s)
      | Inr u \<Rightarrow>
          (case owned_concept s u (ss_conceptId inp) of
             None \<Rightarrow> (Inl concept_not_found, s)
           | Some concept \<Rightarrow>
               if truthy_num (ss_id inp) then
                 (case first_row (limit 1
                         (select_where (\<lambda>r. Some (s_id r) = ss_id inp) (ConceptSteps s))) of
                    None \<Rightarrow> (Inl step_not_found, s)
                  | Some existing \<Rightarrow>
                      if s_conceptId existing \<noteq> ss_conceptId inp then (Inl step_not_found, s)
                      else
                        (case update_where (\<lambda>r. Some (s_id r) = ss_id inp)
                                (set_step (step_baseValues inp)) (ConceptSteps s) of
                           (rows, returned) \<Rightarrow>
                             (Inr (first_row returned), s\<lparr>ConceptSteps := rows\<rparr>)))
               else
                 (case insert_step (step_baseValues inp) now (ConceptSteps s) of
                    (rows, returned) \<Rightarrow>
                      (Inr (first_row returned), s\<lparr>ConceptSteps := rows\<rparr>))))"

record delete_input =
  d_id :: int
  d_conceptId :: int

definition deleteStep :: "delete_input \<Rightarrow> ctx \<Rightarrow> db \<Rightarrow> (error + StepRow) \<times> db" where
  "deleteStep inp c s =
     (case requireUser c of
        Inl e \<Rightarrow> (Inl e, s)
      | Inr u \<Rightarrow>
          (case owned_concept s u (d_conceptId inp) of
             None \<Rightarrow> (Inl concept_not_found, s)
           | Some concept \<Rightarrow>
               (case delete_where (\<lambda>r. s_id r = d_id inp \<and> s_conceptId r = d_conceptId inp)
                       (ConceptSteps s) of
                  (rows, returned) \<Rightarrow>
                    (case first_row returned of
                       None \<Rightarrow> (Inl step_not_found, s\<lparr>ConceptSteps := rows\<rparr>)
                     | Some deleted \<Rightarrow> (Inr deleted, s\<lparr>ConceptSteps := rows\<rparr>)))))"

section \<open>Check handlers\<close>

record saveCheck_input =
  sk_id :: "int option"
  sk_conceptId :: int
  sk_question :: string
  sk_options :: "json option"
  sk_correctAnswer :: "json option"
  sk_explanation :: "string option"
  sk_type :: "checkType option"

definition check_baseValues :: "saveCheck_input \<Rightarrow> CheckValues" where
  "check_baseValues inp =
     \<lparr>kv_conceptId = sk_conceptId inp, kv_question = sk_question inp,
      kv_options = sk_options inp, kv_correctAnswer = sk_correctAnswer inp,
      kv_explanation = sk_explanation inp, kv_type = nullish (sk_type inp) Single_choice\<rparr>"

definition saveCheck :: "saveCheck_input \<Rightarrow> ctx \<Rightarrow> date \<Rightarrow> db \<Rightarrow> (error + CheckRow option) \<times> db" where
  "saveCheck inp c now s =
     (case requireUser c of
        Inl e \<Rightarrow> (Inl e, s)
      | Inr u \<Rightarrow>
          (case owned_concept s u (sk_conceptId inp) of
             None \<Rightarrow> (Inl concept_not_found, s)
           | Some concept \<Rightarrow>
               if truthy_num (sk_id inp) then
                 (case first_row (limit 1
                         (select_where (\<lambda>r. Some (k_id r) = sk_id inp) (ConceptChecks s))) of
                    None \<Rightarrow> (Inl check_not_found, s)
                  | Some existing \<Rightarrow>
                      if k_conceptId existing \<noteq> sk_conceptId inp then (Inl check_not_found, s)
                      else
                        (case update_where (\<lambda>r. Some (k_id r) = sk_id inp)
                                (set_check (check_baseValues inp)) (ConceptChecks s) of
                           (rows, returned) \<Rightarrow>
                             (Inr (first_row returned), s\<lparr>ConceptChecks := rows\<rparr>)))
               else
                 (case insert_check (check_baseValues inp) now (ConceptChecks s) of
                    (rows, returned) \<Rightarrow>
                      (Inr (first_row returned), s\<lparr>ConceptChecks := rows\<rparr>))))"

definition deleteCheck :: "delete_input \<Rightarrow> ctx \<Rightarrow> db \<Rightarrow> (error + CheckRow) \<times> db" where
  "deleteCheck inp c s =
     (case requireUser c of
        Inl e \<Rightarrow> (Inl e, s)
      | Inr u \<Rightarrow>
          (case owned_concept s u (d_conceptId inp) of
             None \<Rightarrow> (Inl concept_not_found, s)
           | Some concept \<Rightarrow>
               (case delete_where (\<lambda>r. k_id r = d_id inp \<and> k_conceptId r = d_conceptId inp)
                       (ConceptChecks s) of
                  (rows, returned) \<Rightarrow>
                    (case first_row returned of
                       None \<Rightarrow> (Inl check_not_found, s\<lparr>ConceptChecks := rows\<rparr>)
                     | Some deleted \<Rightarrow> (Inr deleted, s\<lparr>ConceptChecks := rows\<rparr>)))))"

section \<open>Job handlers\<close>

record createJob_input =
  cj_conceptId :: "int option"
  cj_jobType :: "jobType option"
  cj_input :: "json option"
  cj_output :: "json option"
  cj_status :: "jobStatus option"

definition createJob :: "createJob_input \<Rightarrow> ctx \<Rightarrow> date \<Rightarrow> db \<Rightarrow> (error + JobRow option) \<times> db" where
  "createJob inp c now s =
     (case requireUser c of
        Inl e \<Rightarrow> (Inl e, s)
      | Inr u \<Rightarrow>
          if truthy_num (cj_conceptId inp)
             \<and> owned_concept s u (the (cj_conceptId inp)) = None
          then (Inl concept_not_found, s)
          else
            (case insert_job
                    \<lparr>jv_conceptId = cj_conceptId inp, jv_ownerId = u_id u,
                     jv_jobType = Some (nullish (cj_jobType inp) Step_breakdown),
                     jv_input = cj_input inp, jv_output = cj_output inp,
                     jv_status = Some (nullish (cj_status inp) Pending),
                     jv_createdAt = now\<rparr>
                    (Concepts s) (ConceptJobs s) of
               Inl e \<Rightarrow> (Inl e, s)
             | Inr (rows, returned) \<Rightarrow>
                 (Inr (first_row returned), s\<lparr>ConceptJobs := rows\<rparr>)))"

record updateJob_input =
  uj_id :: int
  uj_output :: "json option"
  uj_status :: "jobStatus option"

definition job_updateData :: "updateJob_input \<Rightarrow> JobSet" where
  "job_updateData inp = \<lparr>js_output = uj_output inp, js_status = uj_status inp\<rparr>"

definition job_keys :: "JobSet \<Rightarrow> string list" where
  "job_keys d = key_of ''output'' (js_output d) @ key_of ''status'' (js_status d)"

definition updateJob :: "updateJob_input \<Rightarrow> ctx \<Rightarrow> db \<Rightarrow> (error + JobRow option) \<times> db" where
  "updateJob inp c s =
     (case requireUser c of
        Inl e \<Rightarrow> (Inl e, s)
      | Inr u \<Rightarrow>
          (case first_row (limit 1
                  (select_where (\<lambda>r. j_id r = uj_id inp \<and> j_ownerId r = u_id u)
                     (ConceptJobs s))) of
             None \<Rightarrow> (Inl job_not_found, s)
           | Some existing \<Rightarrow>
               if length (job_keys (job_updateData inp)) = 0 then (Inr (Some existing), s)
               else
                 (case update_where (\<lambda>r. j_id r = uj_id inp)
                         (set_job (job_updateData inp)) (ConceptJobs s) of
                    (rows, returned) \<Rightarrow> (Inr (first_row returned), s\<lparr>ConceptJobs := rows\<rparr>))))"



section \<open>Stores the handlers can produce\<close>

text \<open>
  The id columns are primary keys allocated by the store, so in every store the
  handlers produce from the empty one the ids of a table are positive and pairwise
  different.
\<close>

definition keys_ok :: "('r \<Rightarrow> int) \<Rightarrow> 'r list \<Rightarrow> bool" where
  "keys_ok key rows = (distinct (map key rows) \<and> list_all (\<lambda>r. 0 < key r) rows)"

definition wf_db :: "db \<Rightarrow> bool" where
  "wf_db s =
     (keys_ok c_id (Concepts s) \<and> keys_ok s_id (ConceptSteps s)
      \<and> keys_ok k_id (ConceptChecks s) \<and> keys_ok j_id (ConceptJobs s))"

inductive reachable :: "db \<Rightarrow> bool" where
  r_empty: "reachable empty_db"
| r_createConcept: "reachable s \<Longrightarrow> reachable (snd (createConcept inp c now1 now2 s))"
| r_updateConcept: "reachable s \<Longrightarrow> reachable (snd (updateConcept inp' c now s))"
| r_archiveConcept: "reachable s \<Longrightarrow> reachable (snd (archiveConcept i c now s))"
| r_saveStep: "reachable s \<Longrightarrow> reachable (snd (saveStep sinp c now s))"
| r_deleteStep: "reachable s \<Longrightarrow> reachable (snd (deleteStep dinp c s))"
| r_saveCheck: "reachable s \<Longrightarrow> reachable (snd (saveCheck kinp c now s))"
| r_deleteCheck: "reachable s \<Longrightarrow> reachable (snd (deleteCheck dinp c s))"
| r_createJob: "reachable s \<Longrightarrow> reachable (snd (createJob jinp c now s))"
| r_updateJob: "reachable s \<Longrightarrow> reachable (snd (updateJob uinp c s))"

section \<open>The vocabulary of the properties\<close>

text \<open>The caller owns a Concept with this id.\<close>

definition owns :: "db \<Rightarrow> user \<Rightarrow> int \<Rightarrow> bool" where
  "owns s u i = list_ex (\<lambda>r. c_id r = i \<and> c_ownerId r = u_id u) (Concepts s)"

text \<open>No Concept row has this id, or the rows that have it belong to somebody else.\<close>

definition unowned :: "db \<Rightarrow> user \<Rightarrow> int \<Rightarrow> bool" where
  "unowned s u i = list_all (\<lambda>r. c_id r = i \<longrightarrow> c_ownerId r \<noteq> u_id u) (Concepts s)"

text \<open>No mutable field is provided to \<^verbatim>\<open>updateConcept\<close>.\<close>

definition no_fields :: "updateConcept_input \<Rightarrow> bool" where
  "no_fields inp =
     (uc_title inp = None \<and> uc_description inp = None \<and> uc_subject inp = None
      \<and> uc_topic inp = None \<and> uc_tags inp = None \<and> uc_difficulty inp = None
      \<and> uc_status inp = None)"



section \<open>A store built by the handlers\<close>

definition alice :: user where
  "alice = \<lparr>u_id = ''alice''\<rparr>"

definition bob :: user where
  "bob = \<lparr>u_id = ''bob''\<rparr>"

definition new_concept :: "string \<Rightarrow> createConcept_input" where
  "new_concept title =
     \<lparr>cc_title = title, cc_description = None, cc_subject = None, cc_topic = None,
      cc_tags = None, cc_difficulty = None, cc_status = None\<rparr>"

definition new_step :: "int \<Rightarrow> string \<Rightarrow> saveStep_input" where
  "new_step i content =
     \<lparr>ss_id = None, ss_conceptId = i, ss_stepNumber = None, ss_stepType = None,
      ss_heading = None, ss_content = content, ss_example = None, ss_analogy = None\<rparr>"

definition new_check :: "int \<Rightarrow> string \<Rightarrow> saveCheck_input" where
  "new_check i question =
     \<lparr>sk_id = None, sk_conceptId = i, sk_question = question, sk_options = None,
      sk_correctAnswer = None, sk_explanation = None, sk_type = None\<rparr>"

definition new_job :: "int option \<Rightarrow> createJob_input" where
  "new_job i =
     \<lparr>cj_conceptId = i, cj_jobType = None, cj_input = None, cj_output = None,
      cj_status = None\<rparr>"

text \<open>
  Bob creates Concept 1; Alice creates Concepts 2 and 3, a Step and a Check of Concept 2
  and a Step of Concept 3, a Job for Concept 2 and a Job for no Concept.
\<close>

definition db1 :: db where
  "db1 = snd (createConcept (new_concept ''Photosynthesis'') (Some bob) 10 10 empty_db)"

definition db2 :: db where
  "db2 = snd (createConcept (new_concept ''Big-O'') (Some alice) 20 20 db1)"

definition db3 :: db where
  "db3 = snd (createConcept ((new_concept ''Pointers in C'')\<lparr>cc_subject := Some ''''\<rparr>)
                (Some alice) 30 31 db2)"

definition db4 :: db where
  "db4 = snd (saveStep ((new_step 2 ''intro text'')
                          \<lparr>ss_stepNumber := Some 2, ss_stepType := Some Step_intro,
                           ss_heading := Some ''Why''\<rparr>)
                (Some alice) 40 db3)"

definition db5 :: db where
  "db5 = snd (saveCheck ((new_check 2 ''Is n log n in O(n^2)?'')
                           \<lparr>sk_options := Some (JArr [JStr ''yes'', JStr ''no'']),
                            sk_type := Some True_false\<rparr>)
                (Some alice) 50 db4)"

definition db6 :: db where
  "db6 = snd (saveStep (new_step 3 ''a pointer holds an address'') (Some alice) 60 db5)"

definition db7 :: db where
  "db7 = snd (createJob (new_job (Some 2)) (Some alice) 70 db6)"

definition example_db :: db where
  "example_db = snd (createJob ((new_job None)\<lparr>cj_status := Some Failed\<rparr>) (Some alice) 80 db7)"

section \<open>The rows an insert produces\<close>

text \<open>
  The row a \<^verbatim>\<open>saveStep\<close> without id is expected to append: a fresh id, the supplied
  fields, 1 and \<^verbatim>\<open>other\<close> for an omitted stepNumber and stepType, NULL for an omitted
  heading, example or analogy, and the time of the call.
\<close>

definition new_step_row :: "saveStep_input \<Rightarrow> date \<Rightarrow> db \<Rightarrow> StepRow" where
  "new_step_row inp now s =
     \<lparr>s_id = next_id (map s_id (ConceptSteps s)), s_conceptId = ss_conceptId inp,
      s_stepNumber = (case ss_stepNumber inp of None \<Rightarrow> 1 | Some n \<Rightarrow> n),
      s_stepType = (case ss_stepType inp of None \<Rightarrow> Step_other | Some t \<Rightarrow> t),
      s_heading = ss_heading inp, s_content = ss_content inp, s_example = ss_example inp,
      s_analogy = ss_analogy inp, s_createdAt = now\<rparr>"

text \<open>The same for \<^verbatim>\<open>saveCheck\<close>, whose default type is \<^verbatim>\<open>single_choice\<close>.\<close>

definition new_check_row :: "saveCheck_input \<Rightarrow> date \<Rightarrow> db \<Rightarrow> CheckRow" where
  "new_check_row inp now s =
     \<lparr>k_id = next_id (map k_id (ConceptChecks s)), k_conceptId = sk_conceptId inp,
      k_question = sk_question inp,
      k_options = (case sk_options inp of None \<Rightarrow> JNull | Some x \<Rightarrow> x),
      k_correctAnswer = (case sk_correctAnswer inp of None \<Rightarrow> JNull | Some x \<Rightarrow> x),
      k_explanation = sk_explanation inp,
      k_type = (case sk_type inp of None \<Rightarrow> Single_choice | Some t \<Rightarrow> t),
      k_createdAt = now\<rparr>"

section \<open>The rows an update produces\<close>

text \<open>
  The Concept row after an \<^verbatim>\<open>updateConcept\<close> that provides at least one field: every
  provided field is replaced, every other column keeps its value, and \<^verbatim>\<open>updatedAt\<close> is
  the time of the call.
\<close>

definition updated_concept :: "updateConcept_input \<Rightarrow> date \<Rightarrow> ConceptRow \<Rightarrow> ConceptRow" where
  "updated_concept inp now row =
     row\<lparr>c_title := (case uc_title inp of None \<Rightarrow> c_title row | Some v \<Rightarrow> v),
         c_description := (case uc_description inp of None \<Rightarrow> c_description row | Some v \<Rightarrow> Some v),
         c_subject := (case uc_subject inp of None \<Rightarrow> c_subject row | Some v \<Rightarrow> Some v),
         c_topic := (case uc_topic inp of None \<Rightarrow> c_topic row | Some v \<Rightarrow> Some v),
         c_tags := (case uc_tags inp of None \<Rightarrow> c_tags row | Some v \<Rightarrow> Some v),
         c_difficulty := (case uc_difficulty inp of None \<Rightarrow> c_difficulty row | Some v \<Rightarrow> v),
         c_status := (case uc_status inp of None \<Rightarrow> c_status row | Some v \<Rightarrow> v),
         c_updatedAt := now\<rparr>"


text \<open>
  The same with an omitted heading, example or analogy keeping the stored value, which is
  what the store does with a key that is undefined.
\<close>

definition saved_step :: "saveStep_input \<Rightarrow> StepRow \<Rightarrow> StepRow" where
  "saved_step inp row =
     row\<lparr>s_conceptId := ss_conceptId inp,
         s_stepNumber := (case ss_stepNumber inp of None \<Rightarrow> 1 | Some n \<Rightarrow> n),
         s_stepType := (case ss_stepType inp of None \<Rightarrow> Step_other | Some t \<Rightarrow> t),
         s_heading := (case ss_heading inp of None \<Rightarrow> s_heading row | Some v \<Rightarrow> Some v),
         s_content := ss_content inp,
         s_example := (case ss_example inp of None \<Rightarrow> s_example row | Some v \<Rightarrow> Some v),
         s_analogy := (case ss_analogy inp of None \<Rightarrow> s_analogy row | Some v \<Rightarrow> Some v)\<rparr>"

text \<open>The Job row after an \<^verbatim>\<open>updateJob\<close>: output and status, each replaced when provided.\<close>

definition updated_job :: "updateJob_input \<Rightarrow> JobRow \<Rightarrow> JobRow" where
  "updated_job inp row =
     row\<lparr>j_output := (case uj_output inp of None \<Rightarrow> j_output row | Some v \<Rightarrow> v),
         j_status := (case uj_status inp of None \<Rightarrow> j_status row | Some v \<Rightarrow> v)\<rparr>"

text \<open>The columns of a Job that no \<^verbatim>\<open>updateJob\<close> may change.\<close>

definition job_frame :: "JobRow \<Rightarrow> int \<times> int option \<times> string \<times> jobType \<times> json \<times> date" where
  "job_frame row =
     (j_id row, j_conceptId row, j_ownerId row, j_jobType row, j_input row, j_createdAt row)"

text \<open>An \<^verbatim>\<open>updateConcept\<close> input that provides no field.\<close>

definition no_update :: "int \<Rightarrow> updateConcept_input" where
  "no_update i =
     \<lparr>uc_id = i, uc_title = None, uc_description = None, uc_subject = None, uc_topic = None,
      uc_tags = None, uc_difficulty = None, uc_status = None\<rparr>"


section \<open>Facts about the store\<close>

lemma first_limit_select: "first_row (limit 1 (select_where p rows)) = find p rows"
  by (induction rows) (auto simp: first_row_def limit_def select_where_def)

lemma owned_concept_find:
  "owned_concept s u i = find (\<lambda>r. c_id r = i \<and> c_ownerId r = u_id u) (Concepts s)"
  unfolding owned_concept_def by (rule first_limit_select)

lemma find_None_list_ex: "(find p rows = None) = (\<not> list_ex p rows)"
  by (induction rows) auto

lemma owned_concept_None: "(owned_concept s u i = None) = (\<not> owns s u i)"
  by (simp add: owned_concept_find owns_def find_None_list_ex)

lemma unowned_not_owns: "unowned s u i = (\<not> owns s u i)"
  by (auto simp: unowned_def owns_def list_all_iff list_ex_iff)

lemma owned_concept_Some: "owns s u i \<Longrightarrow> \<exists>concept. owned_concept s u i = Some concept"
  using owned_concept_None [of s u i] by (cases "owned_concept s u i") auto

lemma fold_max_ge: "(a::int) \<le> fold max ids a"
  by (induction ids arbitrary: a) (auto intro: order_trans [OF max.cobounded2])

lemma fold_max_mem: "x \<in> set ids \<Longrightarrow> (x::int) \<le> fold max ids a"
proof (induction ids arbitrary: a)
  case Nil
  then show ?case by simp
next
  case (Cons y ys)
  show ?case
  proof (cases "x = y")
    case True
    have "max y a \<le> fold max ys (max y a)" by (rule fold_max_ge)
    with True show ?thesis by simp
  next
    case False
    with Cons show ?thesis by simp
  qed
qed

lemma next_id_positive: "0 < next_id ids"
  using fold_max_ge [of 0 ids] by (simp add: next_id_def)

lemma next_id_fresh: "next_id ids \<notin> set ids"
  using fold_max_mem [of "next_id ids" ids 0] by (auto simp: next_id_def)

lemma update_where_none: "\<not> list_ex p rows \<Longrightarrow> update_where p f rows = (rows, [])"
  by (induction rows) (auto simp: update_where_def)

text \<open>With pairwise different ids, a row is found by its id.\<close>

lemma find_by_key:
  assumes "distinct (map key rows)" and "row \<in> set rows"
  shows "find (\<lambda>r. key r = key row) rows = Some row"
  using assms by (induction rows) (auto simp: image_iff)

lemma filter_by_key:
  assumes "distinct (map key rows)" and "row \<in> set rows"
  shows "filter (\<lambda>r. key r = key row) rows = [row]"
  using assms
proof (induction rows)
  case Nil
  then show ?case by simp
next
  case (Cons r rows)
  show ?case
  proof (cases "r = row")
    case True
    with Cons.prems have "\<forall>x \<in> set rows. key x \<noteq> key row" by (auto simp: image_iff)
    then have "filter (\<lambda>r. key r = key row) rows = []" by (simp add: filter_empty_conv)
    with True show ?thesis by simp
  next
    case False
    with Cons.prems have "row \<in> set rows" and "key r \<noteq> key row" and "distinct (map key rows)"
      by (auto simp: image_iff)
    with Cons.IH show ?thesis by simp
  qed
qed

lemma key_eq_iff:
  assumes "distinct (map key rows)" and "row \<in> set rows" and "r \<in> set rows"
  shows "(key r = key row) = (r = row)"
proof -
  from assms(1) have "inj_on key (set rows)" by (simp add: distinct_map)
  with assms(2,3) show ?thesis by (auto dest: inj_onD)
qed

lemma map_by_key:
  assumes "distinct (map key rows)" and "row \<in> set rows"
  shows "map (\<lambda>r. if key r = key row then f r else r) rows
           = map (\<lambda>r. if r = row then f row else r) rows"
proof (rule map_cong [OF refl])
  fix r
  assume "r \<in> set rows"
  with assms have "(key r = key row) = (r = row)" by (rule key_eq_iff)
  then show "(if key r = key row then f r else r) = (if r = row then f row else r)" by auto
qed

lemma update_where_by_key:
  assumes "distinct (map key rows)" and "row \<in> set rows"
  shows "update_where (\<lambda>r. key r = key row) f rows
           = (map (\<lambda>r. if r = row then f row else r) rows, [f row])"
  using map_by_key [OF assms, of f] filter_by_key [OF assms]
  by (simp add: update_where_def)

subsection \<open>The ids stay positive and pairwise different\<close>

lemma keys_ok_update:
  assumes "\<And>r. key (f r) = key r" and "keys_ok key rows"
  shows "keys_ok key (fst (update_where p f rows))"
proof -
  have "map key (map (\<lambda>r. if p r then f r else r) rows) = map key rows"
    using assms(1) by (induction rows) auto
  moreover have "list_all (\<lambda>r. 0 < key r) (map (\<lambda>r. if p r then f r else r) rows)"
    if "list_all (\<lambda>r. 0 < key r) rows"
    using that assms(1) by (induction rows) auto
  ultimately show ?thesis
    using assms(2) by (simp add: keys_ok_def update_where_def del: map_map)
qed

lemma keys_ok_delete:
  assumes "keys_ok key rows"
  shows "keys_ok key (fst (delete_where p rows))"
  using assms by (induction rows) (auto simp: keys_ok_def delete_where_def)

lemma keys_ok_append:
  assumes "keys_ok key rows" and "key row = next_id (map key rows)"
  shows "keys_ok key (rows @ [row])"
  using assms next_id_fresh [of "map key rows"] next_id_positive [of "map key rows"]
  by (simp add: keys_ok_def)

lemma keys_ok_insert_concept: "keys_ok c_id rows \<Longrightarrow> keys_ok c_id (fst (insert_concept v rows))"
  by (simp add: insert_concept_def Let_def keys_ok_append)

lemma keys_ok_insert_step: "keys_ok s_id rows \<Longrightarrow> keys_ok s_id (fst (insert_step v now rows))"
  by (simp add: insert_step_def Let_def keys_ok_append)

lemma keys_ok_insert_check: "keys_ok k_id rows \<Longrightarrow> keys_ok k_id (fst (insert_check v now rows))"
  by (simp add: insert_check_def Let_def keys_ok_append)

lemma keys_ok_insert_job:
  assumes "keys_ok j_id rows" and "insert_job v concepts rows = Inr (rows', returned)"
  shows "keys_ok j_id rows'"
  using assms by (auto simp: insert_job_def Let_def keys_ok_append split: if_splits)

lemma set_concept_id: "c_id (set_concept v r) = c_id r"
  by (simp add: set_concept_def)

lemma set_step_id: "s_id (set_step v r) = s_id r"
  by (simp add: set_step_def)

lemma set_check_id: "k_id (set_check v r) = k_id r"
  by (simp add: set_check_def)

lemma set_job_id: "j_id (set_job v r) = j_id r"
  by (simp add: set_job_def)

lemma wf_createConcept: "wf_db s \<Longrightarrow> wf_db (snd (createConcept inp c now1 now2 s))"
  by (cases "requireUser c")
     (simp_all add: createConcept_def wf_db_def case_prod_beta keys_ok_insert_concept)

lemma wf_updateConcept: "wf_db s \<Longrightarrow> wf_db (snd (updateConcept inp c now s))"
  by (cases "requireUser c")
     (simp_all add: updateConcept_def wf_db_def case_prod_beta keys_ok_update set_concept_id
        split: option.split)

lemma wf_archiveConcept: "wf_db s \<Longrightarrow> wf_db (snd (archiveConcept i c now s))"
  by (cases "requireUser c")
     (simp_all add: archiveConcept_def wf_db_def case_prod_beta keys_ok_update set_concept_id
        split: option.split)

lemma wf_saveStep: "wf_db s \<Longrightarrow> wf_db (snd (saveStep inp c now s))"
  by (cases "requireUser c")
     (simp_all add: saveStep_def wf_db_def case_prod_beta keys_ok_update set_step_id
        keys_ok_insert_step split: option.split)

lemma wf_deleteStep: "wf_db s \<Longrightarrow> wf_db (snd (deleteStep inp c s))"
  by (cases "requireUser c")
     (simp_all add: deleteStep_def wf_db_def case_prod_beta keys_ok_delete split: option.split)

lemma wf_saveCheck: "wf_db s \<Longrightarrow> wf_db (snd (saveCheck inp c now s))"
  by (cases "requireUser c")
     (simp_all add: saveCheck_def wf_db_def case_prod_beta keys_ok_update set_check_id
        keys_ok_insert_check split: option.split)

lemma wf_deleteCheck: "wf_db s \<Longrightarrow> wf_db (snd (deleteCheck inp c s))"
  by (cases "requireUser c")
     (simp_all add: deleteCheck_def wf_db_def case_prod_beta keys_ok_delete split: option.split)

lemma wf_createJob: "wf_db s \<Longrightarrow> wf_db (snd (createJob inp c now s))"
  by (cases "requireUser c")
     (auto simp: createJob_def wf_db_def dest: keys_ok_insert_job split: sum.split)

lemma wf_updateJob: "wf_db s \<Longrightarrow> wf_db (snd (updateJob inp c s))"
  by (cases "requireUser c")
     (simp_all add: updateJob_def wf_db_def case_prod_beta keys_ok_update set_job_id
        split: option.split)

lemma wf_empty_db: "wf_db empty_db"
  by (simp add: wf_db_def keys_ok_def empty_db_def)

lemma reachable_wf: "reachable s \<Longrightarrow> wf_db s"
  by (induction rule: reachable.induct)
     (simp_all add: wf_empty_db wf_createConcept wf_updateConcept wf_archiveConcept wf_saveStep
        wf_deleteStep wf_saveCheck wf_deleteCheck wf_createJob wf_updateJob)

section \<open>The example store, evaluated\<close>

lemmas example_db_defs =
  db1_def db2_def db3_def db4_def db5_def db6_def db7_def example_db_def

text \<open>The rows of the example store.\<close>

lemma example_db_eq:
  "example_db =
     \<lparr>Concepts =
        [\<lparr>c_id = 1, c_ownerId = ''bob'', c_title = ''Photosynthesis'', c_description = None,
          c_subject = None, c_topic = None, c_tags = None, c_difficulty = Beginner,
          c_status = Draft, c_createdAt = 10, c_updatedAt = 10\<rparr>,
         \<lparr>c_id = 2, c_ownerId = ''alice'', c_title = ''Big-O'', c_description = None,
          c_subject = None, c_topic = None, c_tags = None, c_difficulty = Beginner,
          c_status = Draft, c_createdAt = 20, c_updatedAt = 20\<rparr>,
         \<lparr>c_id = 3, c_ownerId = ''alice'', c_title = ''Pointers in C'', c_description = None,
          c_subject = Some '''', c_topic = None, c_tags = None, c_difficulty = Beginner,
          c_status = Draft, c_createdAt = 30, c_updatedAt = 31\<rparr>],
      ConceptSteps =
        [\<lparr>s_id = 1, s_conceptId = 2, s_stepNumber = 2, s_stepType = Step_intro,
          s_heading = Some ''Why'', s_content = ''intro text'', s_example = None,
          s_analogy = None, s_createdAt = 40\<rparr>,
         \<lparr>s_id = 2, s_conceptId = 3, s_stepNumber = 1, s_stepType = Step_other,
          s_heading = None, s_content = ''a pointer holds an address'', s_example = None,
          s_analogy = None, s_createdAt = 60\<rparr>],
      ConceptChecks =
        [\<lparr>k_id = 1, k_conceptId = 2, k_question = ''Is n log n in O(n^2)?'',
          k_options = JArr [JStr ''yes'', JStr ''no''], k_correctAnswer = JNull,
          k_explanation = None, k_type = True_false, k_createdAt = 50\<rparr>],
      ConceptJobs =
        [\<lparr>j_id = 1, j_conceptId = Some 2, j_ownerId = ''alice'', j_jobType = Step_breakdown,
          j_input = JNull, j_output = JNull, j_status = Pending, j_createdAt = 70\<rparr>,
         \<lparr>j_id = 2, j_conceptId = None, j_ownerId = ''alice'', j_jobType = Step_breakdown,
          j_input = JNull, j_output = JNull, j_status = Failed, j_createdAt = 80\<rparr>]\<rparr>"
  by code_simp

lemma example_db_reachable: "reachable example_db"
  unfolding example_db_defs
  by (rule r_createJob r_saveStep r_saveCheck r_createConcept r_empty)+

lemma wf_example_db: "wf_db example_db"
  by (rule reachable_wf [OF example_db_reachable])

section \<open>What the delete handlers do on an owned Concept\<close>

lemma first_row_filter: "first_row (filter p rows) = find p rows"
  by (induction rows) (auto simp: first_row_def)

lemma filter_not_none: "find p rows = None \<Longrightarrow> filter (\<lambda>r. \<not> p r) rows = rows"
  by (induction rows) (auto split: if_splits)

lemma find_after_delete: "find p (filter (\<lambda>r. \<not> p r) rows) = None"
  by (induction rows) auto

lemma deleteStep_owned:
  assumes "owned_concept s u (d_conceptId inp) = Some concept"
  shows "deleteStep inp (Some u) s =
           (case find (\<lambda>r. s_id r = d_id inp \<and> s_conceptId r = d_conceptId inp) (ConceptSteps s) of
              None \<Rightarrow> (Inl step_not_found, s)
            | Some deleted \<Rightarrow>
                (Inr deleted,
                 s\<lparr>ConceptSteps :=
                     filter (\<lambda>r. \<not> (s_id r = d_id inp \<and> s_conceptId r = d_conceptId inp))
                       (ConceptSteps s)\<rparr>))"
  using assms
    filter_not_none [of "\<lambda>r. s_id r = d_id inp \<and> s_conceptId r = d_conceptId inp" "ConceptSteps s"]
  by (simp add: deleteStep_def requireUser_def delete_where_def first_row_filter
        split: option.split)

lemma deleteCheck_owned:
  assumes "owned_concept s u (d_conceptId inp) = Some concept"
  shows "deleteCheck inp (Some u) s =
           (case find (\<lambda>r. k_id r = d_id inp \<and> k_conceptId r = d_conceptId inp) (ConceptChecks s) of
              None \<Rightarrow> (Inl check_not_found, s)
            | Some deleted \<Rightarrow>
                (Inr deleted,
                 s\<lparr>ConceptChecks :=
                     filter (\<lambda>r. \<not> (k_id r = d_id inp \<and> k_conceptId r = d_conceptId inp))
                       (ConceptChecks s)\<rparr>))"
  using assms
    filter_not_none [of "\<lambda>r. k_id r = d_id inp \<and> k_conceptId r = d_conceptId inp" "ConceptChecks s"]
  by (simp add: deleteCheck_def requireUser_def delete_where_def first_row_filter
        split: option.split)

section \<open>What the update handlers do to the one row they address\<close>

lemma find_single:
  assumes "distinct (map key rows)" and "row \<in> set rows"
    and "\<And>r. r \<in> set rows \<Longrightarrow> p r = (key r = key row)"
  shows "find p rows = Some row"
proof -
  have "find p rows = find (\<lambda>r. key r = key row) rows"
    using assms(3) by (induction rows) auto
  with find_by_key [OF assms(1,2)] show ?thesis by simp
qed

lemma update_where_single:
  assumes "distinct (map key rows)" and "row \<in> set rows"
    and "\<And>r. r \<in> set rows \<Longrightarrow> p r = (key r = key row)"
  shows "update_where p f rows = (map (\<lambda>r. if r = row then f row else r) rows, [f row])"
proof -
  have "map (\<lambda>r. if p r then f r else r) rows = map (\<lambda>r. if key r = key row then f r else r) rows"
    using assms(3) by (intro map_cong) auto
  moreover have "filter p rows = filter (\<lambda>r. key r = key row) rows"
    using assms(3) by (intro filter_cong) auto
  ultimately have "update_where p f rows = update_where (\<lambda>r. key r = key row) f rows"
    by (simp add: update_where_def)
  with update_where_by_key [OF assms(1,2)] show ?thesis by simp
qed

lemma set_concept_updated:
  "set_concept ((updateData inp)\<lparr>cs_updatedAt := Some now\<rparr>) row = updated_concept inp now row"
  by (simp add: set_concept_def updateData_def updated_concept_def set_col_def set_nullable_def)

lemma set_step_saved: "set_step (step_baseValues inp) row = saved_step inp row"
  by (simp add: set_step_def step_baseValues_def saved_step_def set_nullable_def nullish_def)

lemma set_job_updated: "set_job (job_updateData inp) row = updated_job inp row"
  by (simp add: set_job_def job_updateData_def updated_job_def set_col_def)

lemma first_row_single: "first_row [r] = Some r"
  by (simp add: first_row_def)

lemma concept_keys_empty: "(concept_keys (updateData inp) = []) = no_fields inp"
  by (auto simp: concept_keys_def updateData_def no_fields_def key_of_def split: option.splits)

lemma job_keys_empty:
  "(job_keys (job_updateData inp) = []) = (uj_output inp = None \<and> uj_status inp = None)"
  by (auto simp: job_keys_def job_updateData_def key_of_def split: option.splits)

lemma updateConcept_owned:
  assumes wf: "wf_db s" and row: "row \<in> set (Concepts s)"
    and i: "c_id row = uc_id inp" and owner: "c_ownerId row = u_id u"
  shows "updateConcept inp (Some u) now s =
           (if no_fields inp then (Inr (Some row), s)
            else (Inr (Some (updated_concept inp now row)),
                  s\<lparr>Concepts :=
                      map (\<lambda>r. if r = row then updated_concept inp now row else r) (Concepts s)\<rparr>))"
proof -
  from wf have d: "distinct (map c_id (Concepts s))" by (simp add: wf_db_def keys_ok_def)
  have p: "(c_id r = uc_id inp \<and> c_ownerId r = u_id u) = (c_id r = c_id row)"
    if "r \<in> set (Concepts s)" for r
    using key_eq_iff [OF d row that] i owner by auto
  have "owned_concept s u (uc_id inp) = Some row"
    unfolding owned_concept_find using d row p by (rule find_single)
  moreover have "update_where (\<lambda>r. c_id r = uc_id inp \<and> c_ownerId r = u_id u)
                   (set_concept ((updateData inp)\<lparr>cs_updatedAt := Some now\<rparr>)) (Concepts s)
                 = (map (\<lambda>r. if r = row then updated_concept inp now row else r) (Concepts s),
                    [updated_concept inp now row])"
    using update_where_single [OF d row p] by (simp add: set_concept_updated)
  ultimately show ?thesis
    by (simp add: updateConcept_def requireUser_def concept_keys_empty first_row_single)
qed

lemma saveStep_existing:
  assumes wf: "wf_db s" and own: "owns s u (ss_conceptId inp)"
    and row: "row \<in> set (ConceptSteps s)" and i: "ss_id inp = Some (s_id row)"
  shows "saveStep inp (Some u) now s =
           (if s_conceptId row \<noteq> ss_conceptId inp then (Inl step_not_found, s)
            else (Inr (Some (saved_step inp row)),
                  s\<lparr>ConceptSteps :=
                      map (\<lambda>r. if r = row then saved_step inp row else r) (ConceptSteps s)\<rparr>))"
proof -
  from wf have d: "distinct (map s_id (ConceptSteps s))"
    and pos: "list_all (\<lambda>r. 0 < s_id r) (ConceptSteps s)"
    by (simp_all add: wf_db_def keys_ok_def)
  from pos row have "0 < s_id row" by (simp add: list_all_iff)
  then have t: "truthy_num (ss_id inp)" by (simp add: truthy_num_def i)
  from own obtain concept where c: "owned_concept s u (ss_conceptId inp) = Some concept"
    using owned_concept_Some by blast
  have p: "(Some (s_id r) = ss_id inp) = (s_id r = s_id row)" for r
    by (simp add: i)
  have f: "first_row (limit 1 (select_where (\<lambda>r. Some (s_id r) = ss_id inp) (ConceptSteps s)))
             = Some row"
    unfolding first_limit_select using d row p by (rule find_single)
  have "update_where (\<lambda>r. Some (s_id r) = ss_id inp) (set_step (step_baseValues inp))
           (ConceptSteps s)
         = (map (\<lambda>r. if r = row then saved_step inp row else r) (ConceptSteps s),
            [saved_step inp row])"
    using update_where_single [OF d row p] by (simp add: set_step_saved)
  with t c f show ?thesis
    by (simp add: saveStep_def requireUser_def first_row_single)
qed

lemma saveCheck_mismatch:
  assumes wf: "wf_db s" and own: "owns s u (sk_conceptId inp)"
    and row: "row \<in> set (ConceptChecks s)" and i: "sk_id inp = Some (k_id row)"
    and other: "k_conceptId row \<noteq> sk_conceptId inp"
  shows "saveCheck inp (Some u) now s = (Inl check_not_found, s)"
proof -
  from wf have d: "distinct (map k_id (ConceptChecks s))"
    and pos: "list_all (\<lambda>r. 0 < k_id r) (ConceptChecks s)"
    by (simp_all add: wf_db_def keys_ok_def)
  from pos row have "0 < k_id row" by (simp add: list_all_iff)
  then have t: "truthy_num (sk_id inp)" by (simp add: truthy_num_def i)
  from own obtain concept where c: "owned_concept s u (sk_conceptId inp) = Some concept"
    using owned_concept_Some by blast
  have p: "(Some (k_id r) = sk_id inp) = (k_id r = k_id row)" for r
    by (simp add: i)
  have f: "first_row (limit 1 (select_where (\<lambda>r. Some (k_id r) = sk_id inp) (ConceptChecks s)))
             = Some row"
    unfolding first_limit_select using d row p by (rule find_single)
  with t c other show ?thesis
    by (simp add: saveCheck_def requireUser_def)
qed

lemma updateJob_owned:
  assumes wf: "wf_db s" and row: "row \<in> set (ConceptJobs s)"
    and i: "j_id row = uj_id inp" and owner: "j_ownerId row = u_id u"
  shows "updateJob inp (Some u) s =
           (if uj_output inp = None \<and> uj_status inp = None then (Inr (Some row), s)
            else (Inr (Some (updated_job inp row)),
                  s\<lparr>ConceptJobs :=
                      map (\<lambda>r. if r = row then updated_job inp row else r) (ConceptJobs s)\<rparr>))"
proof -
  from wf have d: "distinct (map j_id (ConceptJobs s))" by (simp add: wf_db_def keys_ok_def)
  have p: "(j_id r = uj_id inp \<and> j_ownerId r = u_id u) = (j_id r = j_id row)"
    if "r \<in> set (ConceptJobs s)" for r
    using key_eq_iff [OF d row that] i owner by auto
  have q: "(j_id r = uj_id inp) = (j_id r = j_id row)" for r
    by (simp add: i)
  have f: "first_row (limit 1 (select_where (\<lambda>r. j_id r = uj_id inp \<and> j_ownerId r = u_id u)
                                (ConceptJobs s))) = Some row"
    unfolding first_limit_select using d row p by (rule find_single)
  have "update_where (\<lambda>r. j_id r = uj_id inp) (set_job (job_updateData inp)) (ConceptJobs s)
         = (map (\<lambda>r. if r = row then updated_job inp row else r) (ConceptJobs s),
            [updated_job inp row])"
    using update_where_single [OF d row q] by (simp add: set_job_updated)
  with f show ?thesis
    by (simp add: updateJob_def requireUser_def job_keys_empty first_row_single)
qed

section \<open>The concept check of listJobs\<close>








section \<open>Concepts of other owners are not found\<close>

text \<open>
  C1. For every concept id whose Concept row does not exist or belongs to another user,
  the scoped handlers called with that id are to fail with NotFound. \<^verbatim>\<open>createJob\<close>
  misses the id 0: its guard \<^verbatim>\<open>if (input.conceptId)\<close> is false for 0, so the lookup is
  skipped and the handler inserts; no Concept has id 0, the store rejects the reference,
  and the caller gets the store's error SQLITE_CONSTRAINT_FOREIGNKEY instead of NotFound,
  here on the empty store, which has no Concept at all.
  \<^verbatim>\<open>saveStep\<close> and \<^verbatim>\<open>deleteStep\<close>, which look the Concept up without such a guard,
  fail with NotFound for the same id.
\<close>

theorem createJob_zero_conceptId_is_a_store_error:
  "Concepts empty_db = []
   \<and> createJob (new_job (Some 0)) (Some alice) 90 empty_db = (Inl foreign_key_failed, empty_db)
   \<and> foreign_key_failed = StoreError ''SQLITE_CONSTRAINT_FOREIGNKEY''
   \<and> concept_not_found = ActionError NOT_FOUND ''Concept not found.''
   \<and> saveStep (new_step 0 ''text'') (Some alice) 90 empty_db = (Inl concept_not_found, empty_db)
   \<and> deleteStep \<lparr>d_id = 1, d_conceptId = 0\<rparr> (Some alice) empty_db
       = (Inl concept_not_found, empty_db)"
  by code_simp

text \<open>
  Everywhere else the handlers do what C1 says. For every concept id \<open>i\<close> such that no
  Concept row with that id belongs to the caller (no row has the id, or the row belongs
  to another user), each of \<^verbatim>\<open>updateConcept\<close>, \<^verbatim>\<open>archiveConcept\<close>,
  \<^verbatim>\<open>getConceptWithDetails\<close>, \<^verbatim>\<open>saveStep\<close>, \<^verbatim>\<open>saveCheck\<close>, \<^verbatim>\<open>deleteStep\<close> and
  \<^verbatim>\<open>deleteCheck\<close> called with that id, and \<^verbatim>\<open>createJob\<close> called with that id when it
  is not 0, fails with the one error NOT_FOUND "Concept not found." and leaves the store
  as it was. The error does not depend on whether the row is absent or owned by another
  user.
\<close>

theorem unowned_concept_is_not_found:
  assumes "unowned s u i"
  shows "updateConcept (uinp\<lparr>uc_id := i\<rparr>) (Some u) now s = (Inl concept_not_found, s)
     \<and> archiveConcept i (Some u) now s = (Inl concept_not_found, s)
     \<and> getConceptWithDetails i (Some u) s = Inl concept_not_found
     \<and> saveStep (sinp\<lparr>ss_conceptId := i\<rparr>) (Some u) now s = (Inl concept_not_found, s)
     \<and> saveCheck (kinp\<lparr>sk_conceptId := i\<rparr>) (Some u) now s = (Inl concept_not_found, s)
     \<and> deleteStep (dinp\<lparr>d_conceptId := i\<rparr>) (Some u) s = (Inl concept_not_found, s)
     \<and> deleteCheck (dinp\<lparr>d_conceptId := i\<rparr>) (Some u) s = (Inl concept_not_found, s)
     \<and> (i \<noteq> 0 \<longrightarrow>
          createJob (jinp\<lparr>cj_conceptId := Some i\<rparr>) (Some u) now s = (Inl concept_not_found, s))
     \<and> concept_not_found = ActionError NOT_FOUND ''Concept not found.''"
proof -
  from assms have none: "owned_concept s u i = None"
    by (simp add: owned_concept_None unowned_not_owns)
  from assms have no_row: "\<not> list_ex (\<lambda>r. c_id r = i \<and> c_ownerId r = u_id u) (Concepts s)"
    by (simp add: unowned_not_owns owns_def)
  have "updateConcept (uinp\<lparr>uc_id := i\<rparr>) (Some u) now s = (Inl concept_not_found, s)"
    using none by (simp add: updateConcept_def requireUser_def)
  moreover have "archiveConcept i (Some u) now s = (Inl concept_not_found, s)"
    using update_where_none [OF no_row]
    by (simp add: archiveConcept_def requireUser_def first_row_def)
  moreover have "getConceptWithDetails i (Some u) s = Inl concept_not_found"
    using none by (simp add: getConceptWithDetails_def requireUser_def)
  moreover have "saveStep (sinp\<lparr>ss_conceptId := i\<rparr>) (Some u) now s = (Inl concept_not_found, s)"
    using none by (simp add: saveStep_def requireUser_def)
  moreover have "saveCheck (kinp\<lparr>sk_conceptId := i\<rparr>) (Some u) now s = (Inl concept_not_found, s)"
    using none by (simp add: saveCheck_def requireUser_def)
  moreover have "deleteStep (dinp\<lparr>d_conceptId := i\<rparr>) (Some u) s = (Inl concept_not_found, s)"
    using none by (simp add: deleteStep_def requireUser_def)
  moreover have "deleteCheck (dinp\<lparr>d_conceptId := i\<rparr>) (Some u) s = (Inl concept_not_found, s)"
    using none by (simp add: deleteCheck_def requireUser_def)
  moreover have "createJob (jinp\<lparr>cj_conceptId := Some i\<rparr>) (Some u) now s
                   = (Inl concept_not_found, s)" if "i \<noteq> 0"
    using none that by (simp add: createJob_def requireUser_def truthy_num_def)
  moreover have "concept_not_found = ActionError NOT_FOUND ''Concept not found.''"
    by (simp add: concept_not_found_def)
  ultimately show ?thesis by blast
qed

text \<open>
  In the example store Concept 1 belongs to Bob and no Concept has id 7. For Alice the
  eight handlers fail on both ids, with the same error.
\<close>

theorem unowned_concept_is_not_found_witness:
  "unowned example_db alice 1 \<and> unowned example_db alice 7
   \<and> c_id (Concepts example_db ! 0) = 1 \<and> c_ownerId (Concepts example_db ! 0) = ''bob''
   \<and> archiveConcept 1 (Some alice) 90 example_db = (Inl concept_not_found, example_db)
   \<and> archiveConcept 7 (Some alice) 90 example_db = (Inl concept_not_found, example_db)
   \<and> getConceptWithDetails 1 (Some alice) example_db = Inl concept_not_found
   \<and> getConceptWithDetails 7 (Some alice) example_db = Inl concept_not_found
   \<and> saveStep ((new_step 2 ''text'')\<lparr>ss_conceptId := 1\<rparr>) (Some alice) 90 example_db
       = (Inl concept_not_found, example_db)
   \<and> saveStep ((new_step 2 ''text'')\<lparr>ss_conceptId := 7\<rparr>) (Some alice) 90 example_db
       = (Inl concept_not_found, example_db)
   \<and> createJob ((new_job None)\<lparr>cj_conceptId := Some 1\<rparr>) (Some alice) 90 example_db
       = (Inl concept_not_found, example_db)
   \<and> createJob ((new_job None)\<lparr>cj_conceptId := Some 7\<rparr>) (Some alice) 90 example_db
       = (Inl concept_not_found, example_db)"
proof -
  have un1: "unowned example_db alice 1" and un7: "unowned example_db alice 7"
    by code_simp+
  have row: "c_id (Concepts example_db ! 0) = 1" "c_ownerId (Concepts example_db ! 0) = ''bob''"
    by code_simp+
  note one = unowned_concept_is_not_found
                [OF un1, of _ 90 "new_step 2 ''text''" _ _ "new_job None"]
  note seven = unowned_concept_is_not_found
                [OF un7, of _ 90 "new_step 2 ''text''" _ _ "new_job None"]
  from one seven un1 un7 row show ?thesis by simp
qed

section \<open>The Jobs listJobs returns\<close>




section \<open>Partial update of a Concept\<close>

text \<open>
  C3. For every Concept the caller owns, \<^verbatim>\<open>updateConcept\<close> with no mutable field
  provided returns the existing row and leaves the store as it was, so \<^verbatim>\<open>updatedAt\<close> is
  unchanged. With at least one field provided it returns the row with exactly the
  provided fields replaced and \<^verbatim>\<open>updatedAt\<close> set to the time of the call, and that row
  replaces the existing one in the store; id, ownerId and createdAt never change.
\<close>

theorem updateConcept_partial_update:
  assumes "wf_db s" and "row \<in> set (Concepts s)"
    and "c_id row = uc_id inp" and "c_ownerId row = u_id u"
  shows "(no_fields inp \<longrightarrow> updateConcept inp (Some u) now s = (Inr (Some row), s))
     \<and> (\<not> no_fields inp \<longrightarrow>
          updateConcept inp (Some u) now s
            = (Inr (Some (updated_concept inp now row)),
               s\<lparr>Concepts :=
                   map (\<lambda>r. if r = row then updated_concept inp now row else r) (Concepts s)\<rparr>))
     \<and> c_updatedAt (updated_concept inp now row) = now
     \<and> c_id (updated_concept inp now row) = c_id row
     \<and> c_ownerId (updated_concept inp now row) = c_ownerId row
     \<and> c_createdAt (updated_concept inp now row) = c_createdAt row
     \<and> (uc_title inp = None \<longrightarrow> c_title (updated_concept inp now row) = c_title row)
     \<and> (uc_description inp = None \<longrightarrow>
          c_description (updated_concept inp now row) = c_description row)
     \<and> (uc_subject inp = None \<longrightarrow> c_subject (updated_concept inp now row) = c_subject row)
     \<and> (uc_topic inp = None \<longrightarrow> c_topic (updated_concept inp now row) = c_topic row)
     \<and> (uc_tags inp = None \<longrightarrow> c_tags (updated_concept inp now row) = c_tags row)
     \<and> (uc_difficulty inp = None \<longrightarrow>
          c_difficulty (updated_concept inp now row) = c_difficulty row)
     \<and> (uc_status inp = None \<longrightarrow> c_status (updated_concept inp now row) = c_status row)
     \<and> (\<forall>v. uc_title inp = Some v \<longrightarrow> c_title (updated_concept inp now row) = v)
     \<and> (\<forall>v. uc_description inp = Some v \<longrightarrow>
              c_description (updated_concept inp now row) = Some v)
     \<and> (\<forall>v. uc_subject inp = Some v \<longrightarrow> c_subject (updated_concept inp now row) = Some v)
     \<and> (\<forall>v. uc_topic inp = Some v \<longrightarrow> c_topic (updated_concept inp now row) = Some v)
     \<and> (\<forall>v. uc_tags inp = Some v \<longrightarrow> c_tags (updated_concept inp now row) = Some v)
     \<and> (\<forall>v. uc_difficulty inp = Some v \<longrightarrow> c_difficulty (updated_concept inp now row) = v)
     \<and> (\<forall>v. uc_status inp = Some v \<longrightarrow> c_status (updated_concept inp now row) = v)"
proof -
  note call = updateConcept_owned [OF assms, of now]
  have "no_fields inp \<longrightarrow> updateConcept inp (Some u) now s = (Inr (Some row), s)"
    using call by simp
  moreover have "\<not> no_fields inp \<longrightarrow>
          updateConcept inp (Some u) now s
            = (Inr (Some (updated_concept inp now row)),
               s\<lparr>Concepts :=
                   map (\<lambda>r. if r = row then updated_concept inp now row else r) (Concepts s)\<rparr>)"
    using call by simp
  moreover have "c_updatedAt (updated_concept inp now row) = now"
    "c_id (updated_concept inp now row) = c_id row"
    "c_ownerId (updated_concept inp now row) = c_ownerId row"
    "c_createdAt (updated_concept inp now row) = c_createdAt row"
    by (simp_all add: updated_concept_def)
  moreover have "uc_title inp = None \<longrightarrow> c_title (updated_concept inp now row) = c_title row"
    "uc_description inp = None \<longrightarrow>
          c_description (updated_concept inp now row) = c_description row"
    "uc_subject inp = None \<longrightarrow> c_subject (updated_concept inp now row) = c_subject row"
    "uc_topic inp = None \<longrightarrow> c_topic (updated_concept inp now row) = c_topic row"
    "uc_tags inp = None \<longrightarrow> c_tags (updated_concept inp now row) = c_tags row"
    "uc_difficulty inp = None \<longrightarrow>
          c_difficulty (updated_concept inp now row) = c_difficulty row"
    "uc_status inp = None \<longrightarrow> c_status (updated_concept inp now row) = c_status row"
    by (simp_all add: updated_concept_def)
  moreover have "\<forall>v. uc_title inp = Some v \<longrightarrow> c_title (updated_concept inp now row) = v"
    "\<forall>v. uc_description inp = Some v \<longrightarrow>
              c_description (updated_concept inp now row) = Some v"
    "\<forall>v. uc_subject inp = Some v \<longrightarrow> c_subject (updated_concept inp now row) = Some v"
    "\<forall>v. uc_topic inp = Some v \<longrightarrow> c_topic (updated_concept inp now row) = Some v"
    "\<forall>v. uc_tags inp = Some v \<longrightarrow> c_tags (updated_concept inp now row) = Some v"
    "\<forall>v. uc_difficulty inp = Some v \<longrightarrow> c_difficulty (updated_concept inp now row) = v"
    "\<forall>v. uc_status inp = Some v \<longrightarrow> c_status (updated_concept inp now row) = v"
    by (simp_all add: updated_concept_def)
  ultimately show ?thesis by (intro conjI)
qed

text \<open>
  Alice updates her Concept 2, first with no field, then with a new status: the first
  call returns the stored row with the store untouched, the second publishes the Concept
  and moves \<^verbatim>\<open>updatedAt\<close> from 20 to 90.
\<close>

theorem updateConcept_partial_update_witness:
  "wf_db example_db \<and> Concepts example_db ! 1 \<in> set (Concepts example_db)
   \<and> c_id (Concepts example_db ! 1) = 2 \<and> c_ownerId (Concepts example_db ! 1) = u_id alice
   \<and> updateConcept (no_update 2) (Some alice) 90 example_db
       = (Inr (Some (Concepts example_db ! 1)), example_db)
   \<and> updateConcept ((no_update 2)\<lparr>uc_status := Some Published\<rparr>) (Some alice) 90 example_db
       = (Inr (Some ((Concepts example_db ! 1)\<lparr>c_status := Published, c_updatedAt := 90\<rparr>)),
          example_db\<lparr>Concepts :=
            (Concepts example_db)[1 := (Concepts example_db ! 1)\<lparr>c_status := Published,
                                                                 c_updatedAt := 90\<rparr>]\<rparr>)"
proof -
  have row: "Concepts example_db ! 1 \<in> set (Concepts example_db)"
    "c_id (Concepts example_db ! 1) = 2" "c_ownerId (Concepts example_db ! 1) = u_id alice"
    by code_simp+
  have i: "c_id (Concepts example_db ! 1) = uc_id (no_update 2)"
    "c_id (Concepts example_db ! 1) = uc_id ((no_update 2)\<lparr>uc_status := Some Published\<rparr>)"
    using row(2) by (simp_all add: no_update_def)
  have nf: "no_fields (no_update 2)" "\<not> no_fields ((no_update 2)\<lparr>uc_status := Some Published\<rparr>)"
    by (simp_all add: no_fields_def no_update_def)
  have new_row: "updated_concept ((no_update 2)\<lparr>uc_status := Some Published\<rparr>) 90
                   (Concepts example_db ! 1)
                 = (Concepts example_db ! 1)\<lparr>c_status := Published, c_updatedAt := 90\<rparr>"
    by (simp add: updated_concept_def no_update_def)
  have new_rows: "map (\<lambda>r. if r = Concepts example_db ! 1
                           then (Concepts example_db ! 1)\<lparr>c_status := Published, c_updatedAt := 90\<rparr>
                           else r) (Concepts example_db)
                  = (Concepts example_db)[1 := (Concepts example_db ! 1)\<lparr>c_status := Published,
                                                                        c_updatedAt := 90\<rparr>]"
    by code_simp
  from updateConcept_partial_update [OF wf_example_db row(1) i(1) row(3), of 90] nf(1)
  have first: "updateConcept (no_update 2) (Some alice) 90 example_db
                = (Inr (Some (Concepts example_db ! 1)), example_db)"
    by blast
  from updateConcept_partial_update [OF wf_example_db row(1) i(2) row(3), of 90] nf(2)
  have "updateConcept ((no_update 2)\<lparr>uc_status := Some Published\<rparr>) (Some alice) 90 example_db
          = (Inr (Some (updated_concept ((no_update 2)\<lparr>uc_status := Some Published\<rparr>) 90
                          (Concepts example_db ! 1))),
             example_db\<lparr>Concepts :=
               map (\<lambda>r. if r = Concepts example_db ! 1
                         then updated_concept ((no_update 2)\<lparr>uc_status := Some Published\<rparr>) 90
                                (Concepts example_db ! 1)
                         else r) (Concepts example_db)\<rparr>)"
    by blast
  then have second:
    "updateConcept ((no_update 2)\<lparr>uc_status := Some Published\<rparr>) (Some alice) 90 example_db
       = (Inr (Some ((Concepts example_db ! 1)\<lparr>c_status := Published, c_updatedAt := 90\<rparr>)),
          example_db\<lparr>Concepts :=
            (Concepts example_db)[1 := (Concepts example_db ! 1)\<lparr>c_status := Published,
                                                                 c_updatedAt := 90\<rparr>]\<rparr>)"
    by (simp only: new_row new_rows)
  from wf_example_db row first second show ?thesis by (intro conjI)
qed

section \<open>Saving an existing Step\<close>




section \<open>A child row cannot be moved to another Concept\<close>

text \<open>
  C5. In every store the handlers can produce, for every Step (Check) whose stored
  conceptId differs from the conceptId supplied in the call, \<^verbatim>\<open>saveStep\<close> (\<^verbatim>\<open>saveCheck\<close>)
  called with that row's id and a conceptId the caller owns fails with NotFound and
  leaves the store, and so the row, unchanged.
\<close>

theorem save_does_not_move_row:
  assumes "wf_db s"
  shows "(step \<in> set (ConceptSteps s) \<and> ss_id sinp = Some (s_id step)
            \<and> s_conceptId step \<noteq> ss_conceptId sinp \<and> owns s u (ss_conceptId sinp)
          \<longrightarrow> saveStep sinp (Some u) now s = (Inl step_not_found, s))
     \<and> (chk \<in> set (ConceptChecks s) \<and> sk_id kinp = Some (k_id chk)
            \<and> k_conceptId chk \<noteq> sk_conceptId kinp \<and> owns s u (sk_conceptId kinp)
          \<longrightarrow> saveCheck kinp (Some u) now s = (Inl check_not_found, s))"
proof -
  have "saveStep sinp (Some u) now s = (Inl step_not_found, s)"
    if "step \<in> set (ConceptSteps s)" "ss_id sinp = Some (s_id step)"
      "s_conceptId step \<noteq> ss_conceptId sinp" "owns s u (ss_conceptId sinp)"
    using saveStep_existing [OF assms that(4) that(1) that(2), of now] that(3) by simp
  moreover have "saveCheck kinp (Some u) now s = (Inl check_not_found, s)"
    if "chk \<in> set (ConceptChecks s)" "sk_id kinp = Some (k_id chk)"
      "k_conceptId chk \<noteq> sk_conceptId kinp" "owns s u (sk_conceptId kinp)"
    using saveCheck_mismatch [OF assms that(4) that(1) that(2) that(3)] .
  ultimately show ?thesis by blast
qed

text \<open>
  Step 1 and Check 1 of the example store belong to Alice's Concept 2. Alice cannot save
  them under her Concept 3.
\<close>

theorem save_does_not_move_row_witness:
  "wf_db example_db \<and> owns example_db alice 3
   \<and> s_id (ConceptSteps example_db ! 0) = 1 \<and> s_conceptId (ConceptSteps example_db ! 0) = 2
   \<and> k_id (ConceptChecks example_db ! 0) = 1 \<and> k_conceptId (ConceptChecks example_db ! 0) = 2
   \<and> saveStep ((new_step 3 ''moved'')\<lparr>ss_id := Some 1\<rparr>) (Some alice) 90 example_db
       = (Inl step_not_found, example_db)
   \<and> saveCheck ((new_check 3 ''moved?'')\<lparr>sk_id := Some 1\<rparr>) (Some alice) 90 example_db
       = (Inl check_not_found, example_db)"
proof -
  have own: "owns example_db alice 3" by code_simp
  have rows: "ConceptSteps example_db ! 0 \<in> set (ConceptSteps example_db)"
    "ConceptChecks example_db ! 0 \<in> set (ConceptChecks example_db)"
    by code_simp+
  have vals: "s_id (ConceptSteps example_db ! 0) = 1" "s_conceptId (ConceptSteps example_db ! 0) = 2"
    "k_id (ConceptChecks example_db ! 0) = 1" "k_conceptId (ConceptChecks example_db ! 0) = 2"
    by code_simp+
  have inp: "ss_id ((new_step 3 ''moved'')\<lparr>ss_id := Some 1\<rparr>) = Some 1"
    "ss_conceptId ((new_step 3 ''moved'')\<lparr>ss_id := Some 1\<rparr>) = 3"
    "sk_id ((new_check 3 ''moved?'')\<lparr>sk_id := Some 1\<rparr>) = Some 1"
    "sk_conceptId ((new_check 3 ''moved?'')\<lparr>sk_id := Some 1\<rparr>) = 3"
    by (simp_all add: new_step_def new_check_def)
  from save_does_not_move_row
         [OF wf_example_db, where step = "ConceptSteps example_db ! 0"
            and sinp = "(new_step 3 ''moved'')\<lparr>ss_id := Some 1\<rparr>" and u = alice
            and chk = "ConceptChecks example_db ! 0"
            and kinp = "(new_check 3 ''moved?'')\<lparr>sk_id := Some 1\<rparr>" and now = 90]
    own rows vals inp
  have "saveStep ((new_step 3 ''moved'')\<lparr>ss_id := Some 1\<rparr>) (Some alice) 90 example_db
          = (Inl step_not_found, example_db)
        \<and> saveCheck ((new_check 3 ''moved?'')\<lparr>sk_id := Some 1\<rparr>) (Some alice) 90 example_db
          = (Inl check_not_found, example_db)"
    by simp
  with wf_example_db own vals show ?thesis by (intro conjI) simp_all
qed

section \<open>Deleting a Step or a Check\<close>

text \<open>
  C6. For every Concept the caller owns, \<^verbatim>\<open>deleteStep\<close> (and \<^verbatim>\<open>deleteCheck\<close>) fails with
  NotFound and changes nothing whenever no row matches both the supplied id and the
  supplied conceptId. When a row matches, the call returns it and removes the matching
  rows; a second call with the same arguments on the store the first one left fails with
  NotFound and leaves that store unchanged.
\<close>

theorem delete_is_not_found_without_match:
  assumes "owns s u (d_conceptId inp)"
  shows "(\<not> list_ex (\<lambda>r. s_id r = d_id inp \<and> s_conceptId r = d_conceptId inp) (ConceptSteps s)
            \<longrightarrow> deleteStep inp (Some u) s = (Inl step_not_found, s))
     \<and> (list_ex (\<lambda>r. s_id r = d_id inp \<and> s_conceptId r = d_conceptId inp) (ConceptSteps s)
            \<longrightarrow> (\<exists>deleted s'. deleteStep inp (Some u) s = (Inr deleted, s')))
     \<and> (\<forall>deleted s'. deleteStep inp (Some u) s = (Inr deleted, s')
            \<longrightarrow> deleteStep inp (Some u) s' = (Inl step_not_found, s'))
     \<and> (\<not> list_ex (\<lambda>r. k_id r = d_id inp \<and> k_conceptId r = d_conceptId inp) (ConceptChecks s)
            \<longrightarrow> deleteCheck inp (Some u) s = (Inl check_not_found, s))
     \<and> (list_ex (\<lambda>r. k_id r = d_id inp \<and> k_conceptId r = d_conceptId inp) (ConceptChecks s)
            \<longrightarrow> (\<exists>deleted s'. deleteCheck inp (Some u) s = (Inr deleted, s')))
     \<and> (\<forall>deleted s'. deleteCheck inp (Some u) s = (Inr deleted, s')
            \<longrightarrow> deleteCheck inp (Some u) s' = (Inl check_not_found, s'))
     \<and> step_not_found = ActionError NOT_FOUND ''Step not found.''
     \<and> check_not_found = ActionError NOT_FOUND ''Check not found.''"
proof -
  from assms obtain concept where own: "owned_concept s u (d_conceptId inp) = Some concept"
    using owned_concept_Some by blast
  let ?p = "\<lambda>r. s_id r = d_id inp \<and> s_conceptId r = d_conceptId inp"
  let ?q = "\<lambda>r. k_id r = d_id inp \<and> k_conceptId r = d_conceptId inp"
  have step_none: "deleteStep inp (Some u) s = (Inl step_not_found, s)"
    if "\<not> list_ex ?p (ConceptSteps s)"
  proof -
    from that have "find ?p (ConceptSteps s) = None"
      using find_None_list_ex [of ?p "ConceptSteps s"] by blast
    then show ?thesis by (simp add: deleteStep_owned [OF own])
  qed
  have step_some: "\<exists>deleted s'. deleteStep inp (Some u) s = (Inr deleted, s')"
    if "list_ex ?p (ConceptSteps s)"
  proof -
    from that have "find ?p (ConceptSteps s) \<noteq> None"
      using find_None_list_ex [of ?p "ConceptSteps s"] by blast
    then obtain d where "find ?p (ConceptSteps s) = Some d" by blast
    then show ?thesis by (simp add: deleteStep_owned [OF own])
  qed
  have step_again: "deleteStep inp (Some u) s' = (Inl step_not_found, s')"
    if "deleteStep inp (Some u) s = (Inr deleted, s')" for deleted s'
  proof -
    from that have s': "s' = s\<lparr>ConceptSteps := filter (\<lambda>r. \<not> ?p r) (ConceptSteps s)\<rparr>"
      by (simp add: deleteStep_owned [OF own] split: option.splits)
    then have own': "owned_concept s' u (d_conceptId inp) = Some concept"
      using own by (simp add: owned_concept_def)
    have "find ?p (ConceptSteps s') = None"
      unfolding s' using find_after_delete [of ?p "ConceptSteps s"] by simp
    with deleteStep_owned [OF own'] show ?thesis by simp
  qed
  have check_none: "deleteCheck inp (Some u) s = (Inl check_not_found, s)"
    if "\<not> list_ex ?q (ConceptChecks s)"
  proof -
    from that have "find ?q (ConceptChecks s) = None"
      using find_None_list_ex [of ?q "ConceptChecks s"] by blast
    then show ?thesis by (simp add: deleteCheck_owned [OF own])
  qed
  have check_some: "\<exists>deleted s'. deleteCheck inp (Some u) s = (Inr deleted, s')"
    if "list_ex ?q (ConceptChecks s)"
  proof -
    from that have "find ?q (ConceptChecks s) \<noteq> None"
      using find_None_list_ex [of ?q "ConceptChecks s"] by blast
    then obtain d where "find ?q (ConceptChecks s) = Some d" by blast
    then show ?thesis by (simp add: deleteCheck_owned [OF own])
  qed
  have check_again: "deleteCheck inp (Some u) s' = (Inl check_not_found, s')"
    if "deleteCheck inp (Some u) s = (Inr deleted, s')" for deleted s'
  proof -
    from that have s': "s' = s\<lparr>ConceptChecks := filter (\<lambda>r. \<not> ?q r) (ConceptChecks s)\<rparr>"
      by (simp add: deleteCheck_owned [OF own] split: option.splits)
    then have own': "owned_concept s' u (d_conceptId inp) = Some concept"
      using own by (simp add: owned_concept_def)
    have "find ?q (ConceptChecks s') = None"
      unfolding s' using find_after_delete [of ?q "ConceptChecks s"] by simp
    with deleteCheck_owned [OF own'] show ?thesis by simp
  qed
  have "step_not_found = ActionError NOT_FOUND ''Step not found.''"
    "check_not_found = ActionError NOT_FOUND ''Check not found.''"
    by (simp_all add: step_not_found_def check_not_found_def)
  with step_none step_some step_again check_none check_some check_again
  show ?thesis by blast
qed

text \<open>
  Alice deletes Step 1 and Check 1 of her Concept 2 twice: the first call returns the
  row, the second fails. Step 1 under her Concept 3 is not found either.
\<close>

theorem delete_is_not_found_witness:
  "owns example_db alice 2
   \<and> fst (deleteStep \<lparr>d_id = 1, d_conceptId = 2\<rparr> (Some alice) example_db)
       = Inr (ConceptSteps example_db ! 0)
   \<and> deleteStep \<lparr>d_id = 1, d_conceptId = 2\<rparr> (Some alice)
        (snd (deleteStep \<lparr>d_id = 1, d_conceptId = 2\<rparr> (Some alice) example_db))
       = (Inl step_not_found,
          snd (deleteStep \<lparr>d_id = 1, d_conceptId = 2\<rparr> (Some alice) example_db))
   \<and> fst (deleteCheck \<lparr>d_id = 1, d_conceptId = 2\<rparr> (Some alice) example_db)
       = Inr (ConceptChecks example_db ! 0)
   \<and> deleteCheck \<lparr>d_id = 1, d_conceptId = 2\<rparr> (Some alice)
        (snd (deleteCheck \<lparr>d_id = 1, d_conceptId = 2\<rparr> (Some alice) example_db))
       = (Inl check_not_found,
          snd (deleteCheck \<lparr>d_id = 1, d_conceptId = 2\<rparr> (Some alice) example_db))"
proof -
  have own: "owns example_db alice (d_conceptId \<lparr>d_id = 1, d_conceptId = 2\<rparr>)"
    by code_simp
  have first_step: "deleteStep \<lparr>d_id = 1, d_conceptId = 2\<rparr> (Some alice) example_db
      = (Inr (ConceptSteps example_db ! 0),
         snd (deleteStep \<lparr>d_id = 1, d_conceptId = 2\<rparr> (Some alice) example_db))"
    by code_simp
  have first_check: "deleteCheck \<lparr>d_id = 1, d_conceptId = 2\<rparr> (Some alice) example_db
      = (Inr (ConceptChecks example_db ! 0),
         snd (deleteCheck \<lparr>d_id = 1, d_conceptId = 2\<rparr> (Some alice) example_db))"
    by code_simp
  note inst = delete_is_not_found_without_match [OF own]
  from inst first_step have "deleteStep \<lparr>d_id = 1, d_conceptId = 2\<rparr> (Some alice)
        (snd (deleteStep \<lparr>d_id = 1, d_conceptId = 2\<rparr> (Some alice) example_db))
       = (Inl step_not_found,
          snd (deleteStep \<lparr>d_id = 1, d_conceptId = 2\<rparr> (Some alice) example_db))"
    by blast
  moreover from inst first_check have "deleteCheck \<lparr>d_id = 1, d_conceptId = 2\<rparr> (Some alice)
        (snd (deleteCheck \<lparr>d_id = 1, d_conceptId = 2\<rparr> (Some alice) example_db))
       = (Inl check_not_found,
          snd (deleteCheck \<lparr>d_id = 1, d_conceptId = 2\<rparr> (Some alice) example_db))"
    by blast
  moreover have "owns example_db alice 2" by code_simp
  moreover have "fst (deleteStep \<lparr>d_id = 1, d_conceptId = 2\<rparr> (Some alice) example_db)
       = Inr (ConceptSteps example_db ! 0)"
    "fst (deleteCheck \<lparr>d_id = 1, d_conceptId = 2\<rparr> (Some alice) example_db)
       = Inr (ConceptChecks example_db ! 0)"
    using first_step first_check by (metis fst_conv)+
  ultimately show ?thesis by blast
qed

section \<open>Defaults of createJob\<close>

text \<open>
  C7. For every authenticated caller whose \<^verbatim>\<open>createJob\<close> names no conceptId or the id
  of a Concept the caller owns, the call inserts and returns one Job. When \<^verbatim>\<open>jobType\<close> is omitted the Job's jobType is \<^verbatim>\<open>step_breakdown\<close>; when
  \<^verbatim>\<open>status\<close> is omitted its status is \<^verbatim>\<open>pending\<close>, which is not the default the
  ConceptJobs table declares for the column (\<^verbatim>\<open>completed\<close>).
\<close>

theorem createJob_defaults:
  assumes "case cj_conceptId inp of None \<Rightarrow> True | Some i \<Rightarrow> owns s u i"
  shows "\<exists>job. createJob inp (Some u) now s
                  = (Inr (Some job), s\<lparr>ConceptJobs := ConceptJobs s @ [job]\<rparr>)
            \<and> (cj_jobType inp = None \<longrightarrow> j_jobType job = Step_breakdown)
            \<and> (cj_status inp = None \<longrightarrow>
                 j_status job = Pending \<and> j_status job \<noteq> ConceptJobs_status_default)"
proof -
  have pass: "\<not> (truthy_num (cj_conceptId inp)
                 \<and> owned_concept s u (the (cj_conceptId inp)) = None)"
    using assms by (auto simp: truthy_num_def owned_concept_None split: option.splits)
  have fk: "references_concept (Concepts s) (cj_conceptId inp)"
    using assms by (auto simp: references_concept_def owns_def list_ex_iff split: option.splits)
  show ?thesis
    using pass fk
    by (simp add: createJob_def requireUser_def insert_job_def first_row_def Let_def
          nullish_def ConceptJobs_status_default_def)
qed

text \<open>Alice creates a Job for her Concept 2 and names neither jobType nor status.\<close>

theorem createJob_defaults_witness:
  "owns example_db alice 2
   \<and> (\<exists>job. createJob (new_job (Some 2)) (Some alice) 100 example_db
                = (Inr (Some job), example_db\<lparr>ConceptJobs := ConceptJobs example_db @ [job]\<rparr>)
          \<and> j_jobType job = Step_breakdown \<and> j_status job = Pending
          \<and> j_status job \<noteq> ConceptJobs_status_default)"
proof -
  have own: "owns example_db alice 2" by code_simp
  then have "case cj_conceptId (new_job (Some 2)) of None \<Rightarrow> True
             | Some i \<Rightarrow> owns example_db alice i"
    by (simp add: new_job_def)
  from createJob_defaults [OF this, of 100] own show ?thesis
    by (simp add: new_job_def)
qed

section \<open>What updateJob may change\<close>

text \<open>
  C8. Every call of \<^verbatim>\<open>updateJob\<close>, by anybody on any store, leaves id, conceptId,
  ownerId, jobType, input and createdAt of every Job as they were, and leaves the other
  tables alone. For a Job the caller owns, in a store the handlers can produce, the call
  returns the existing row with no write when neither output nor status is provided;
  otherwise it returns the row with the provided ones of output and status replaced and a
  field not provided untouched, and that row replaces the existing one in the store.
\<close>

theorem updateJob_changes_only_output_and_status:
  "map job_frame (ConceptJobs (snd (updateJob inp c s))) = map job_frame (ConceptJobs s)
   \<and> Concepts (snd (updateJob inp c s)) = Concepts s
   \<and> ConceptSteps (snd (updateJob inp c s)) = ConceptSteps s
   \<and> ConceptChecks (snd (updateJob inp c s)) = ConceptChecks s
   \<and> (wf_db s \<and> row \<in> set (ConceptJobs s) \<and> j_id row = uj_id inp \<and> j_ownerId row = u_id u
        \<longrightarrow> updateJob inp (Some u) s
              = (if uj_output inp = None \<and> uj_status inp = None then (Inr (Some row), s)
                 else (Inr (Some (updated_job inp row)),
                       s\<lparr>ConceptJobs :=
                           map (\<lambda>r. if r = row then updated_job inp row else r) (ConceptJobs s)\<rparr>))
            \<and> job_frame (updated_job inp row) = job_frame row
            \<and> (uj_output inp = None \<longrightarrow> j_output (updated_job inp row) = j_output row)
            \<and> (uj_status inp = None \<longrightarrow> j_status (updated_job inp row) = j_status row)
            \<and> (\<forall>v. uj_output inp = Some v \<longrightarrow> j_output (updated_job inp row) = v)
            \<and> (\<forall>v. uj_status inp = Some v \<longrightarrow> j_status (updated_job inp row) = v))"
proof -
  have frame_set: "job_frame (set_job v r) = job_frame r" for v r
    by (simp add: job_frame_def set_job_def)
  have frame_map: "map job_frame (map (\<lambda>r. if p r then set_job v r else r) rows)
                     = map job_frame rows" for p v rows
    by (induction rows) (simp_all add: frame_set)
  have tables: "map job_frame (ConceptJobs (snd (updateJob inp c s))) = map job_frame (ConceptJobs s)
     \<and> Concepts (snd (updateJob inp c s)) = Concepts s
     \<and> ConceptSteps (snd (updateJob inp c s)) = ConceptSteps s
     \<and> ConceptChecks (snd (updateJob inp c s)) = ConceptChecks s"
    using frame_map
    by (cases "requireUser c")
       (simp_all add: updateJob_def update_where_def split: option.split del: map_map)
  have fields: "job_frame (updated_job inp row) = job_frame row
            \<and> (uj_output inp = None \<longrightarrow> j_output (updated_job inp row) = j_output row)
            \<and> (uj_status inp = None \<longrightarrow> j_status (updated_job inp row) = j_status row)
            \<and> (\<forall>v. uj_output inp = Some v \<longrightarrow> j_output (updated_job inp row) = v)
            \<and> (\<forall>v. uj_status inp = Some v \<longrightarrow> j_status (updated_job inp row) = v)"
    by (simp add: job_frame_def updated_job_def)
  from tables fields updateJob_owned [of s row inp u] show ?thesis by blast
qed

text \<open>
  Alice sets the output of her Job 1 and leaves its status out: the status stays
  \<^verbatim>\<open>pending\<close>. With neither field she gets the stored row and the store is untouched.
\<close>

theorem updateJob_witness:
  "wf_db example_db \<and> ConceptJobs example_db ! 0 \<in> set (ConceptJobs example_db)
   \<and> j_id (ConceptJobs example_db ! 0) = 1 \<and> j_ownerId (ConceptJobs example_db ! 0) = u_id alice
   \<and> updateJob \<lparr>uj_id = 1, uj_output = None, uj_status = None\<rparr> (Some alice) example_db
       = (Inr (Some (ConceptJobs example_db ! 0)), example_db)
   \<and> updateJob \<lparr>uj_id = 1, uj_output = Some (JStr ''done''), uj_status = None\<rparr> (Some alice)
        example_db
       = (Inr (Some ((ConceptJobs example_db ! 0)\<lparr>j_output := JStr ''done''\<rparr>)),
          example_db\<lparr>ConceptJobs :=
            (ConceptJobs example_db)[0 := (ConceptJobs example_db ! 0)\<lparr>j_output := JStr ''done''\<rparr>]\<rparr>)
   \<and> j_status ((ConceptJobs example_db ! 0)\<lparr>j_output := JStr ''done''\<rparr>) = Pending"
proof -
  have row: "ConceptJobs example_db ! 0 \<in> set (ConceptJobs example_db)"
    "j_id (ConceptJobs example_db ! 0) = 1" "j_ownerId (ConceptJobs example_db ! 0) = u_id alice"
    "j_status ((ConceptJobs example_db ! 0)\<lparr>j_output := JStr ''done''\<rparr>) = Pending"
    by code_simp+
  have new_row: "updated_job \<lparr>uj_id = 1, uj_output = Some (JStr ''done''), uj_status = None\<rparr>
                   (ConceptJobs example_db ! 0)
                 = (ConceptJobs example_db ! 0)\<lparr>j_output := JStr ''done''\<rparr>"
    by (simp add: updated_job_def)
  have new_rows: "map (\<lambda>r. if r = ConceptJobs example_db ! 0
                           then (ConceptJobs example_db ! 0)\<lparr>j_output := JStr ''done''\<rparr> else r)
                    (ConceptJobs example_db)
                  = (ConceptJobs example_db)[0 := (ConceptJobs example_db ! 0)\<lparr>j_output := JStr ''done''\<rparr>]"
    by code_simp
  from updateJob_changes_only_output_and_status
         [of "\<lparr>uj_id = 1, uj_output = None, uj_status = None\<rparr>" "Some alice" example_db
            "ConceptJobs example_db ! 0" alice]
    wf_example_db row
  have first: "updateJob \<lparr>uj_id = 1, uj_output = None, uj_status = None\<rparr> (Some alice) example_db
                 = (Inr (Some (ConceptJobs example_db ! 0)), example_db)"
    by simp
  from updateJob_changes_only_output_and_status
         [of "\<lparr>uj_id = 1, uj_output = Some (JStr ''done''), uj_status = None\<rparr>" "Some alice"
            example_db "ConceptJobs example_db ! 0" alice]
    wf_example_db row
  have "updateJob \<lparr>uj_id = 1, uj_output = Some (JStr ''done''), uj_status = None\<rparr> (Some alice)
          example_db
        = (Inr (Some (updated_job \<lparr>uj_id = 1, uj_output = Some (JStr ''done''), uj_status = None\<rparr>
                        (ConceptJobs example_db ! 0))),
           example_db\<lparr>ConceptJobs :=
             map (\<lambda>r. if r = ConceptJobs example_db ! 0
                       then updated_job \<lparr>uj_id = 1, uj_output = Some (JStr ''done''),
                                         uj_status = None\<rparr> (ConceptJobs example_db ! 0)
                       else r) (ConceptJobs example_db)\<rparr>)"
    by simp
  then have second:
    "updateJob \<lparr>uj_id = 1, uj_output = Some (JStr ''done''), uj_status = None\<rparr> (Some alice)
        example_db
       = (Inr (Some ((ConceptJobs example_db ! 0)\<lparr>j_output := JStr ''done''\<rparr>)),
          example_db\<lparr>ConceptJobs :=
            (ConceptJobs example_db)[0 := (ConceptJobs example_db ! 0)\<lparr>j_output := JStr ''done''\<rparr>]\<rparr>)"
    by (simp only: new_row new_rows)
  from wf_example_db row first second show ?thesis by (intro conjI)
qed

section \<open>Empty-string filters of listMyConcepts\<close>

text \<open>
  C9. For every caller, \<^verbatim>\<open>listMyConcepts\<close> called with a subject filter or a topic filter
  equal to the empty string returns what it returns when that filter is absent: the
  filter is tested for truthiness, and the empty string is falsy. With both filters empty
  and no status filter, an authenticated caller gets every Concept they own.
\<close>

theorem listMyConcepts_empty_filter_is_absent:
  "listMyConcepts (Some (inp\<lparr>lc_subject := Some ''''\<rparr>)) c s
     = listMyConcepts (Some (inp\<lparr>lc_subject := None\<rparr>)) c s
   \<and> listMyConcepts (Some (inp\<lparr>lc_topic := Some ''''\<rparr>)) c s
     = listMyConcepts (Some (inp\<lparr>lc_topic := None\<rparr>)) c s
   \<and> listMyConcepts (Some \<lparr>lc_status = None, lc_subject = Some '''', lc_topic = Some ''''\<rparr>)
         (Some u) s
     = Inr (filter (\<lambda>r. c_ownerId r = u_id u) (Concepts s))"
  by (cases "requireUser c")
     (simp_all add: listMyConcepts_def opt_key_def truthy_str_def truthy_enum_def Let_def
        select_where_def requireUser_def)

text \<open>
  In the example store Alice owns Concept 2, whose subject is NULL, and Concept 3, whose
  subject is the empty string. The filter \<^verbatim>\<open>subject: ""\<close> returns both, as no filter does.
\<close>

theorem listMyConcepts_empty_filter_witness:
  "listMyConcepts (Some \<lparr>lc_status = None, lc_subject = Some '''', lc_topic = None\<rparr>)
      (Some alice) example_db
     = Inr [Concepts example_db ! 1, Concepts example_db ! 2]"
proof -
  have "listMyConcepts (Some \<lparr>lc_status = None, lc_subject = None, lc_topic = None\<rparr>)
          (Some alice) example_db
          = Inr [Concepts example_db ! 1, Concepts example_db ! 2]"
    by code_simp
  with listMyConcepts_empty_filter_is_absent
         [of "\<lparr>lc_status = None, lc_subject = None, lc_topic = None\<rparr>" "Some alice" example_db]
  show ?thesis by simp
qed

section \<open>The number 0 in an optional numeric field\<close>

text \<open>
  C10, as stated, says that \<^verbatim>\<open>createJob\<close> with conceptId 0 skips the
  ownership check and inserts a Job with conceptId 0. The check is skipped, but no Job is
  inserted: in the example store no Concept has id 0, the store rejects the reference, and
  the call returns the store's error with the tables as they were.
\<close>

theorem createJob_zero_conceptId_inserts_nothing_counterexample:
  "\<not> references_concept (Concepts example_db) (Some 0)
   \<and> createJob ((new_job None)\<lparr>cj_conceptId := Some 0\<rparr>) (Some alice) 90 example_db
       = (Inl foreign_key_failed, example_db)"
  by code_simp

text \<open>
  C10, amended. \<^verbatim>\<open>saveStep\<close> and \<^verbatim>\<open>saveCheck\<close> test their optional id for truthiness,
  so the value 0 is treated as an absent id and not as a reference: with id 0 they do
  exactly what they do with no id, and for an owned Concept they insert a new row under a
  fresh positive id, with no lookup of a row 0 and no NotFound for it.
\<close>

theorem zero_id_is_treated_as_absent:
  "saveStep (sinp\<lparr>ss_id := Some 0\<rparr>) c now s = saveStep (sinp\<lparr>ss_id := None\<rparr>) c now s
   \<and> (owns s u (ss_conceptId sinp) \<longrightarrow>
        saveStep (sinp\<lparr>ss_id := Some 0\<rparr>) (Some u) now s
          = (Inr (Some (new_step_row sinp now s)),
             s\<lparr>ConceptSteps := ConceptSteps s @ [new_step_row sinp now s]\<rparr>)
        \<and> 0 < s_id (new_step_row sinp now s)
        \<and> s_id (new_step_row sinp now s) \<notin> s_id ` set (ConceptSteps s))
   \<and> saveCheck (kinp\<lparr>sk_id := Some 0\<rparr>) c now s = saveCheck (kinp\<lparr>sk_id := None\<rparr>) c now s
   \<and> (owns s u (sk_conceptId kinp) \<longrightarrow>
        saveCheck (kinp\<lparr>sk_id := Some 0\<rparr>) (Some u) now s
          = (Inr (Some (new_check_row kinp now s)),
             s\<lparr>ConceptChecks := ConceptChecks s @ [new_check_row kinp now s]\<rparr>)
        \<and> 0 < k_id (new_check_row kinp now s)
        \<and> k_id (new_check_row kinp now s) \<notin> k_id ` set (ConceptChecks s))"
proof -
  have step_same: "saveStep (sinp\<lparr>ss_id := Some 0\<rparr>) c now s = saveStep (sinp\<lparr>ss_id := None\<rparr>) c now s"
    by (cases "requireUser c")
       (simp_all add: saveStep_def truthy_num_def step_baseValues_def split: option.split)
  have check_same: "saveCheck (kinp\<lparr>sk_id := Some 0\<rparr>) c now s = saveCheck (kinp\<lparr>sk_id := None\<rparr>) c now s"
    by (cases "requireUser c")
       (simp_all add: saveCheck_def truthy_num_def check_baseValues_def split: option.split)
  have step_insert:
    "saveStep (sinp\<lparr>ss_id := Some 0\<rparr>) (Some u) now s
       = (Inr (Some (new_step_row sinp now s)),
          s\<lparr>ConceptSteps := ConceptSteps s @ [new_step_row sinp now s]\<rparr>)"
    if "owns s u (ss_conceptId sinp)"
  proof -
    from that obtain concept where "owned_concept s u (ss_conceptId sinp) = Some concept"
      using owned_concept_Some by blast
    then show ?thesis
      by (simp add: saveStep_def requireUser_def truthy_num_def insert_step_def first_row_def
            Let_def step_baseValues_def nullish_def new_step_row_def)
  qed
  have check_insert:
    "saveCheck (kinp\<lparr>sk_id := Some 0\<rparr>) (Some u) now s
       = (Inr (Some (new_check_row kinp now s)),
          s\<lparr>ConceptChecks := ConceptChecks s @ [new_check_row kinp now s]\<rparr>)"
    if "owns s u (sk_conceptId kinp)"
  proof -
    from that obtain concept where "owned_concept s u (sk_conceptId kinp) = Some concept"
      using owned_concept_Some by blast
    then show ?thesis
      by (simp add: saveCheck_def requireUser_def truthy_num_def insert_check_def first_row_def
            Let_def check_baseValues_def nullish_def json_or_null_def new_check_row_def)
  qed
  have step_id: "0 < s_id (new_step_row sinp now s)"
    "s_id (new_step_row sinp now s) \<notin> s_id ` set (ConceptSteps s)"
    using next_id_positive [of "map s_id (ConceptSteps s)"]
      next_id_fresh [of "map s_id (ConceptSteps s)"]
    by (simp_all add: new_step_row_def)
  have check_id: "0 < k_id (new_check_row kinp now s)"
    "k_id (new_check_row kinp now s) \<notin> k_id ` set (ConceptChecks s)"
    using next_id_positive [of "map k_id (ConceptChecks s)"]
      next_id_fresh [of "map k_id (ConceptChecks s)"]
    by (simp_all add: new_check_row_def)
  from step_same check_same step_insert check_insert step_id check_id
  show ?thesis by blast
qed

text \<open>
  In the example store Alice saves a Step and a Check of her Concept 2 with id 0: each
  call appends a row, Step 3 and Check 2.
\<close>

theorem zero_id_is_treated_as_absent_witness:
  "owns example_db alice 2
   \<and> saveStep ((new_step 2 ''more'')\<lparr>ss_id := Some 0\<rparr>) (Some alice) 90 example_db
       = (Inr (Some (new_step_row (new_step 2 ''more'') 90 example_db)),
          example_db\<lparr>ConceptSteps :=
            ConceptSteps example_db @ [new_step_row (new_step 2 ''more'') 90 example_db]\<rparr>)
   \<and> s_id (new_step_row (new_step 2 ''more'') 90 example_db) = 3
   \<and> saveCheck ((new_check 2 ''why?'')\<lparr>sk_id := Some 0\<rparr>) (Some alice) 90 example_db
       = (Inr (Some (new_check_row (new_check 2 ''why?'') 90 example_db)),
          example_db\<lparr>ConceptChecks :=
            ConceptChecks example_db @ [new_check_row (new_check 2 ''why?'') 90 example_db]\<rparr>)
   \<and> k_id (new_check_row (new_check 2 ''why?'') 90 example_db) = 2"
proof -
  have own: "owns example_db alice 2"
    by code_simp
  have ids: "s_id (new_step_row (new_step 2 ''more'') 90 example_db) = 3"
    "k_id (new_check_row (new_check 2 ''why?'') 90 example_db) = 2"
    by code_simp+
  have c2: "ss_conceptId (new_step 2 ''more'') = 2" "sk_conceptId (new_check 2 ''why?'') = 2"
    by (simp_all add: new_step_def new_check_def)
  note inst =
    zero_id_is_treated_as_absent
      [of "new_step 2 ''more''" "Some alice" 90 example_db alice "new_check 2 ''why?''",
       unfolded c2]
  from inst own ids show ?thesis by blast
qed

end
